theory Spec2Isabelle
  imports Main
begin

section \<open>Python values used by \<^verbatim>\<open>imgcreate/fs.py\<close>\<close>

text \<open>
  The module is Python 2. Byte strings are \<^typ>\<open>string\<close>, integers are \<^typ>\<open>int\<close>
  (\<^verbatim>\<open>/\<close> on two integers is floor division, which is \<open>div\<close> on \<^typ>\<open>int\<close>),
  \<^verbatim>\<open>None\<close>-able attributes are options.
\<close>

subsection \<open>Exceptions\<close>

text \<open>
  Modelled from the spec: the exception classes of \<^verbatim>\<open>imgcreate.errors\<close> (the module is
  imported with \<^verbatim>\<open>import *\<close> and is not part of the sources at hand). Section 7 of the
  specification lists them as separate classes: mount-class, compression, snapshot and
  the generic creator error. The remaining constructors are Python built-ins; each carries
  what the source passes to it (\<open>OSError\<close> carries the errno).
\<close>

datatype error =
    MountError string
  | SnapshotError string
  | SquashfsError string
  | CreatorError string
  | RuntimeError string
  | KeyError string
  | OSError int
  | ValueError
  | IndexError
  | TypeError
  | AttributeError

fun is_snapshot_error :: "error \<Rightarrow> bool" where
  "is_snapshot_error (SnapshotError m) = True"
| "is_snapshot_error e = False"

fun is_mount_error :: "error \<Rightarrow> bool" where
  "is_mount_error (MountError m) = True"
| "is_mount_error e = False"

fun is_runtime_error :: "error \<Rightarrow> bool" where
  "is_runtime_error (RuntimeError m) = True"
| "is_runtime_error e = False"

fun raises :: "error + 'a \<Rightarrow> bool" where
  "raises (Inl e) = True"
| "raises (Inr v) = False"

subsection \<open>Strings\<close>

text \<open>\<^verbatim>\<open>isspace\<close> in the C locale: space, tab, newline, vertical tab, form feed, return.\<close>

definition isspace :: "char \<Rightarrow> bool" where
  "isspace c = (c = CHR '' '' \<or> c = CHR 0x09 \<or> c = CHR 0x0A \<or> c = CHR 0x0B
      \<or> c = CHR 0x0C \<or> c = CHR 0x0D)"

definition isdigit :: "char \<Rightarrow> bool" where
  "isdigit c = (48 \<le> (of_char c :: nat) \<and> (of_char c :: nat) \<le> 57)"

text \<open>\<^verbatim>\<open>s.split()\<close>: the maximal runs of non-whitespace characters, in order.\<close>

fun split_acc :: "string \<Rightarrow> string \<Rightarrow> string list" where
  "split_acc cur [] = (if cur = [] then [] else [cur])"
| "split_acc cur (c # cs) =
     (if isspace c then (if cur = [] then split_acc [] cs else cur # split_acc [] cs)
      else split_acc (cur @ [c]) cs)"

definition py_split :: "string \<Rightarrow> string list" where
  "py_split s = split_acc [] s"

text \<open>\<^verbatim>\<open>s.split(sep)\<close> for a one-character separator: never empty, keeps empty fields.\<close>

fun split_on_acc :: "char \<Rightarrow> string \<Rightarrow> string \<Rightarrow> string list" where
  "split_on_acc sep cur [] = [cur]"
| "split_on_acc sep cur (c # cs) =
     (if c = sep then cur # split_on_acc sep [] cs else split_on_acc sep (cur @ [c]) cs)"

definition split_on :: "char \<Rightarrow> string \<Rightarrow> string list" where
  "split_on sep s = split_on_acc sep [] s"

text \<open>\<^verbatim>\<open>xs[i]\<close> for a literal index \<open>i \<ge> 0\<close>: \<open>IndexError\<close> out of range.\<close>

fun py_nth :: "'a list \<Rightarrow> nat \<Rightarrow> error + 'a" where
  "py_nth [] i = Inl IndexError"
| "py_nth (x # xs) 0 = Inr x"
| "py_nth (x # xs) (Suc i) = py_nth xs i"

definition strip :: "string \<Rightarrow> string" where
  "strip s = rev (dropWhile isspace (rev (dropWhile isspace s)))"

definition startswith :: "string \<Rightarrow> string \<Rightarrow> bool" where
  "startswith s p = (take (length p) s = p)"

text \<open>\<^verbatim>\<open>string.join(args, " ")\<close>.\<close>

fun join_sp :: "string list \<Rightarrow> string" where
  "join_sp [] = []"
| "join_sp [x] = x"
| "join_sp (x # y # ys) = x @ '' '' @ join_sp (y # ys)"

text \<open>\<^verbatim>\<open>"%d" % n\<close> and \<^verbatim>\<open>str(n)\<close> for an integer.\<close>

fun str_nat :: "nat \<Rightarrow> string" where
  "str_nat n = (if n < 10 then [''0123456789'' ! n]
                else str_nat (n div 10) @ [''0123456789'' ! (n mod 10)])"

declare str_nat.simps [simp del]

definition str_int :: "int \<Rightarrow> string" where
  "str_int i = (if i < 0 then ''-'' @ str_nat (nat (- i)) else str_nat (nat i))"

text \<open>\<^verbatim>\<open>"%s" % x\<close> for an attribute that may be \<^verbatim>\<open>None\<close>.\<close>

fun str_opt :: "string option \<Rightarrow> string" where
  "str_opt None = ''None''"
| "str_opt (Some s) = s"

text \<open>
  \<^verbatim>\<open>int(s)\<close> on a byte string, base 10, as CPython 2 parses it: whitespace is skipped
  at both ends and after an optional sign, at least one decimal digit is required and
  nothing else may follow. \<open>None\<close> stands for \<open>ValueError\<close>.
\<close>

definition digits_val :: "string \<Rightarrow> nat" where
  "digits_val ds = fold (\<lambda>c n. 10 * n + ((of_char c :: nat) - 48)) ds 0"

definition py_int :: "string \<Rightarrow> int option" where
  "py_int s =
     (let s1 = dropWhile isspace s;
          neg = (s1 \<noteq> [] \<and> hd s1 = CHR ''-'');
          s2 = (if s1 \<noteq> [] \<and> (hd s1 = CHR ''-'' \<or> hd s1 = CHR ''+'') then tl s1 else s1);
          s3 = dropWhile isspace s2;
          ds = takeWhile isdigit s3;
          rest = dropWhile isspace (dropWhile isdigit s3)
      in if ds \<noteq> [] \<and> rest = []
         then Some (if neg then - int (digits_val ds) else int (digits_val ds))
         else None)"

text \<open>\<^verbatim>\<open>os.path.dirname\<close> and \<^verbatim>\<open>os.path.join\<close> of two components (posixpath).\<close>

definition dirname :: "string \<Rightarrow> string" where
  "dirname p =
     (let hd_part = rev (dropWhile (\<lambda>c. c \<noteq> CHR ''/'') (rev p))
      in if hd_part \<noteq> [] \<and> filter (\<lambda>c. c \<noteq> CHR ''/'') hd_part \<noteq> []
         then rev (dropWhile (\<lambda>c. c = CHR ''/'') (rev hd_part))
         else hd_part)"

definition path_join :: "string \<Rightarrow> string \<Rightarrow> string" where
  "path_join a b =
     (if b \<noteq> [] \<and> hd b = CHR ''/'' then b
      else if a = [] \<or> last a = CHR ''/'' then a @ b
      else a @ ''/'' @ b)"

section \<open>The environment: external commands and system calls\<close>

text \<open>
  Every interaction with the outside (a \<^verbatim>\<open>subprocess\<close> invocation or an \<^verbatim>\<open>os\<close> call)
  is an \<open>action\<close>. The environment answers each action with a \<open>reply\<close>; the answers
  still to come are the \<open>replies\<close> of the world, consumed in order, and every action
  is logged with its answer in the \<open>trace\<close>. When the replies are used up, actions succeed
  with the default answer. Quantifying over worlds quantifies over all behaviours of the
  tools.

  \<^item> \<open>Exec args\<close>: \<^verbatim>\<open>subprocess.call(args)\<close> or \<^verbatim>\<open>Popen(args).communicate()\<close>;
    \<open>rc\<close> is the exit status, \<open>out\<close> the captured standard output.
  \<^item> The \<^verbatim>\<open>os\<close> calls raise \<open>OSError\<close> with errno \<open>rc\<close> when \<open>rc \<noteq> 0\<close>.
    \<open>Stat\<close> answers the file size in \<open>num\<close>; \<open>IsDir\<close>, \<open>Exists\<close> and \<open>Isatty\<close>
    answer in \<open>flag\<close>; \<open>Mkstemp\<close> answers the new path in \<open>out\<close>; \<open>Getpid\<close> and
    \<open>Randint\<close> answer in \<open>num\<close>.
  \<^item> \<open>Extend f create n\<close> is the open/lseek/write/close sequence of
    \<^verbatim>\<open>SparseLoopbackDisk.expand\<close> (\<open>create\<close>: with \<^verbatim>\<open>O_CREAT\<close>), \<open>Ftruncate f n\<close>
    the open/ftruncate/close sequence of \<^verbatim>\<open>truncate\<close>.
  Opening and closing \<^verbatim>\<open>/dev/null\<close> and \<^verbatim>\<open>logging.debug\<close> are not modelled, except
  that the \<^verbatim>\<open>%d\<close> formatting of a log message raises \<open>TypeError\<close> on \<^verbatim>\<open>None\<close>.
\<close>

datatype action =
    Exec "string list"
  | Makedirs string
  | IsDir string
  | Exists string
  | Rmdir string
  | Unlink string
  | Stat string
  | Mkstemp
  | Extend string bool int
  | Ftruncate string int
  | Isatty
  | Getpid
  | Randint

record reply =
  rc :: int
  out :: string
  num :: int
  flag :: bool

record world =
  replies :: "reply list"
  trace :: "(action \<times> reply) list"

definition ok_reply :: reply where
  "ok_reply = \<lparr>rc = 0, out = [], num = 0, flag = False\<rparr>"

definition next_reply :: "world \<Rightarrow> reply" where
  "next_reply w = (case replies w of [] \<Rightarrow> ok_reply | r # rs \<Rightarrow> r)"

definition advance :: "action \<Rightarrow> world \<Rightarrow> world" where
  "advance a w = \<lparr>replies = tl (replies w), trace = trace w @ [(a, next_reply w)]\<rparr>"

definition env_call :: "action \<Rightarrow> world \<Rightarrow> reply \<times> world" where
  "env_call a w = (next_reply w, advance a w)"

text \<open>The external commands invoked so far, and the events added between two worlds.\<close>

fun exec_args :: "action \<times> reply \<Rightarrow> string list list" where
  "exec_args (Exec args, r) = [args]"
| "exec_args (a, r) = []"

definition execs :: "world \<Rightarrow> string list list" where
  "execs w = concat (map exec_args (trace w))"

definition new_events :: "world \<Rightarrow> world \<Rightarrow> (action \<times> reply) list" where
  "new_events w w' = drop (length (trace w)) (trace w')"

definition EEXIST :: int where
  "EEXIST = 17"

section \<open>Module-level functions\<close>

definition makedirs :: "string \<Rightarrow> world \<Rightarrow> (error + unit) \<times> world" where
  "makedirs dname w =
     (let (r, w1) = env_call (Makedirs dname) w
      in if rc r \<noteq> 0 \<and> rc r \<noteq> EEXIST then (Inl (OSError (rc r)), w1) else (Inr (), w1))"

definition mksquashfs :: "string \<Rightarrow> string \<Rightarrow> world \<Rightarrow> (error + unit) \<times> world" where
  "mksquashfs in_img out_img w =
     (let (t, w1) = env_call Isatty w;
          args = [''/sbin/mksquashfs'', in_img, out_img]
                 @ (if \<not> flag t then [''-no-progress''] else []);
          (r, w2) = env_call (Exec args) w1
      in if rc r \<noteq> 0
         then (Inl (SquashfsError ([CHR 0x27] @ join_sp args @ [CHR 0x27]
                       @ '' exited with error ('' @ str_int (rc r) @ '')'')), w2)
         else (Inr (), w2))"

text \<open>
  \<^verbatim>\<open>e2fsck(fs)\<close> returns the exit status. A \<^verbatim>\<open>None\<close> argument makes
  \<^verbatim>\<open>subprocess.call\<close> raise \<open>TypeError\<close> and no command runs.
\<close>

definition e2fsck :: "string option \<Rightarrow> world \<Rightarrow> (error + int) \<times> world" where
  "e2fsck fs w =
     (case fs of
        None \<Rightarrow> (Inl TypeError, w)
      | Some f \<Rightarrow>
          (let (r, w1) = env_call (Exec [''/sbin/e2fsck'', ''-f'', ''-y'', f]) w
           in (Inr (rc r), w1)))"

definition resize2fs :: "string option \<Rightarrow> int option \<Rightarrow> bool \<Rightarrow> world \<Rightarrow> (error + int) \<times> world" where
  "resize2fs fs sz minimal w =
     (if minimal \<and> sz \<noteq> None
      then (Inl (RuntimeError ''Can't specify both minimal and a size for resize!''), w)
      else if \<not> minimal \<and> sz = None
      then (Inl (RuntimeError ''Must specify either a size or minimal for resize!''), w)
      else
        (case e2fsck fs w of
           (Inl e, w1) \<Rightarrow> (Inl e, w1)
         | (Inr c0, w1) \<Rightarrow>
            (let (t, w2) = env_call Mkstemp w1
             in if rc t \<noteq> 0 then (Inl (OSError (rc t)), w2)
                else
                 (let saved_image = out t;
                      (i, w3) = env_call (Exec [''/sbin/e2image'', ''-r'', the fs, saved_image]) w2;
                      args = [''/sbin/resize2fs'', the fs]
                             @ (if minimal then [''-M''] else [str_int (the sz div 1024) @ ''K'']);
                      (r, w4) = env_call (Exec args) w3
                  in if rc r \<noteq> 0 then (Inr (rc r), w4)
                     else
                      (case e2fsck fs w4 of
                         (Inl e, w5) \<Rightarrow> (Inl e, w5)
                       | (Inr c, w5) \<Rightarrow>
                           if c \<noteq> 0
                           then (Inl (CreatorError
                                  (''fsck after resize returned an error!  image to debug at ''
                                   @ saved_image)), w5)
                           else
                            (let (u, w6) = env_call (Unlink saved_image) w5
                             in if rc u \<noteq> 0 then (Inl (OSError (rc u)), w6)
                                else (Inr 0, w6)))))))"

section \<open>\<^verbatim>\<open>BindChrootMount\<close>\<close>

record bind_mount =
  b_src :: string
  b_root :: string
  b_dest :: string
  b_mounted :: bool

text \<open>\<^verbatim>\<open>BindChrootMount(src, chroot, dest)\<close>; an empty or missing \<open>dest\<close> is replaced by \<open>src\<close>.\<close>

definition BindChrootMount_init :: "string \<Rightarrow> string \<Rightarrow> string option \<Rightarrow> bind_mount" where
  "BindChrootMount_init src chroot dest =
     \<lparr>b_src = src, b_root = chroot,
      b_dest = chroot @ ''/'' @ (case dest of None \<Rightarrow> src | Some d \<Rightarrow> if d = [] then src else d),
      b_mounted = False\<rparr>"

definition BindChrootMount_mount :: "bind_mount \<Rightarrow> world \<Rightarrow> (error + unit) \<times> bind_mount \<times> world" where
  "BindChrootMount_mount b w =
     (if b_mounted b then (Inr (), b, w)
      else
        (case makedirs (b_dest b) w of
           (Inl e, w1) \<Rightarrow> (Inl e, b, w1)
         | (Inr u, w1) \<Rightarrow>
            (let (r, w2) = env_call (Exec [''/bin/mount'', ''--bind'', b_src b, b_dest b]) w1
             in if rc r \<noteq> 0
                then (Inl (MountError (''Bind-mounting '' @ [CHR 0x27] @ b_src b @ [CHR 0x27]
                              @ '' to '' @ [CHR 0x27] @ b_dest b @ [CHR 0x27] @ '' failed'')),
                      b, w2)
                else (Inr (), b\<lparr>b_mounted := True\<rparr>, w2))))"

definition BindChrootMount_unmount :: "bind_mount \<Rightarrow> world \<Rightarrow> (error + unit) \<times> bind_mount \<times> world" where
  "BindChrootMount_unmount b w =
     (if \<not> b_mounted b then (Inr (), b, w)
      else
        (let (r, w1) = env_call (Exec [''/bin/umount'', b_dest b]) w
         in if rc r \<noteq> 0
            then (Inl (MountError (''Unable to unmount filesystem at '' @ b_dest b)), b, w1)
            else (Inr (), b\<lparr>b_mounted := False\<rparr>, w1)))"

section \<open>The \<^verbatim>\<open>Disk\<close> classes\<close>

text \<open>
  One record for the three concrete classes; \<open>kind\<close> is the class of the object.
  A \<^verbatim>\<open>RawDisk\<close> has no attribute \<^verbatim>\<open>lofile\<close> and no methods \<^verbatim>\<open>expand\<close> and
  \<^verbatim>\<open>truncate\<close>, a plain \<^verbatim>\<open>LoopbackDisk\<close> has no \<^verbatim>\<open>expand\<close> and \<^verbatim>\<open>truncate\<close>:
  using them raises \<open>AttributeError\<close>.
\<close>

datatype disk_kind = Raw | Loopback | SparseLoopback

record disk =
  kind :: disk_kind
  disk_size :: "int option"
  device :: "string option"
  lofile :: string

definition RawDisk_init :: "int option \<Rightarrow> string option \<Rightarrow> disk" where
  "RawDisk_init sz dev = \<lparr>kind = Raw, disk_size = sz, device = dev, lofile = []\<rparr>"

definition LoopbackDisk_init :: "string \<Rightarrow> int option \<Rightarrow> disk" where
  "LoopbackDisk_init f sz = \<lparr>kind = Loopback, disk_size = sz, device = None, lofile = f\<rparr>"

definition SparseLoopbackDisk_init :: "string \<Rightarrow> int option \<Rightarrow> disk" where
  "SparseLoopbackDisk_init f sz =
     \<lparr>kind = SparseLoopback, disk_size = sz, device = None, lofile = f\<rparr>"

definition get_lofile :: "disk \<Rightarrow> error + string" where
  "get_lofile d = (case kind d of Raw \<Rightarrow> Inl AttributeError | _ \<Rightarrow> Inr (lofile d))"

definition fixed :: "disk \<Rightarrow> bool" where
  "fixed d = (case kind d of Raw \<Rightarrow> True | _ \<Rightarrow> False)"

definition exists :: "disk \<Rightarrow> world \<Rightarrow> bool \<times> world" where
  "exists d w =
     (case kind d of
        Raw \<Rightarrow> (True, w)
      | _ \<Rightarrow> (let (r, w1) = env_call (Exists (lofile d)) w in (flag r, w1)))"

definition LoopbackDisk_create :: "disk \<Rightarrow> world \<Rightarrow> (error + unit) \<times> disk \<times> world" where
  "LoopbackDisk_create d w =
     (if device d \<noteq> None then (Inr (), d, w)
      else
        (let (p, w1) = env_call (Exec [''/sbin/losetup'', ''-f'']) w
         in if rc p \<noteq> 0
            then (Inl (MountError (''Failed to allocate loop device for '' @ [CHR 0x27]
                          @ lofile d @ [CHR 0x27])), d, w1)
            else
              (case py_nth (py_split (out p)) 0 of
                 Inl e \<Rightarrow> (Inl e, d, w1)
               | Inr dev \<Rightarrow>
                  (let (r, w2) = env_call (Exec [''/sbin/losetup'', dev, lofile d]) w1
                   in if rc r \<noteq> 0
                      then (Inl (MountError (''Failed to allocate loop device for '' @ [CHR 0x27]
                                    @ lofile d @ [CHR 0x27])), d, w2)
                      else (Inr (), d\<lparr>device := Some dev\<rparr>, w2)))))"

definition LoopbackDisk_cleanup :: "disk \<Rightarrow> world \<Rightarrow> (error + unit) \<times> disk \<times> world" where
  "LoopbackDisk_cleanup d w =
     (case device d of
        None \<Rightarrow> (Inr (), d, w)
      | Some dev \<Rightarrow>
          (let (r, w1) = env_call (Exec [''/sbin/losetup'', ''-d'', dev]) w
           in (Inr (), d\<lparr>device := None\<rparr>, w1)))"

text \<open>
  \<^verbatim>\<open>expand(create, size)\<close> and \<^verbatim>\<open>truncate(size)\<close> of \<^verbatim>\<open>SparseLoopbackDisk\<close>.
  \<open>create\<close> is the truth value of the first argument, \<open>sz = None\<close> is the default.
\<close>

definition SparseLoopbackDisk_expand :: "disk \<Rightarrow> bool \<Rightarrow> int option \<Rightarrow> world \<Rightarrow> (error + unit) \<times> world" where
  "SparseLoopbackDisk_expand d create sz w =
     (case kind d of
        SparseLoopback \<Rightarrow>
          (case (if create then makedirs (dirname (lofile d)) w else (Inr (), w)) of
             (Inl e, w1) \<Rightarrow> (Inl e, w1)
           | (Inr u, w1) \<Rightarrow>
               (case (case sz of None \<Rightarrow> disk_size d | Some n \<Rightarrow> Some n) of
                  None \<Rightarrow> (Inl TypeError, w1)
                | Some n \<Rightarrow>
                    (let (r, w2) = env_call (Extend (lofile d) create n) w1
                     in if rc r \<noteq> 0 then (Inl (OSError (rc r)), w2) else (Inr (), w2))))
      | _ \<Rightarrow> (Inl AttributeError, w))"

definition SparseLoopbackDisk_truncate :: "disk \<Rightarrow> int option \<Rightarrow> world \<Rightarrow> (error + unit) \<times> world" where
  "SparseLoopbackDisk_truncate d sz w =
     (case kind d of
        SparseLoopback \<Rightarrow>
          (case (case sz of None \<Rightarrow> disk_size d | Some n \<Rightarrow> Some n) of
             None \<Rightarrow> (Inl TypeError, w)
           | Some n \<Rightarrow>
               (let (r, w1) = env_call (Ftruncate (lofile d) n) w
                in if rc r \<noteq> 0 then (Inl (OSError (rc r)), w1) else (Inr (), w1)))
      | _ \<Rightarrow> (Inl AttributeError, w))"

definition SparseLoopbackDisk_create :: "disk \<Rightarrow> world \<Rightarrow> (error + unit) \<times> disk \<times> world" where
  "SparseLoopbackDisk_create d w =
     (case SparseLoopbackDisk_expand d True None w of
        (Inl e, w1) \<Rightarrow> (Inl e, d, w1)
      | (Inr u, w1) \<Rightarrow> LoopbackDisk_create d w1)"

text \<open>\<^verbatim>\<open>disk.create()\<close> and \<^verbatim>\<open>disk.cleanup()\<close>, dispatched on the class.\<close>

definition Disk_create :: "disk \<Rightarrow> world \<Rightarrow> (error + unit) \<times> disk \<times> world" where
  "Disk_create d w =
     (case kind d of
        Raw \<Rightarrow> (Inr (), d, w)
      | Loopback \<Rightarrow> LoopbackDisk_create d w
      | SparseLoopback \<Rightarrow> SparseLoopbackDisk_create d w)"

definition Disk_cleanup :: "disk \<Rightarrow> world \<Rightarrow> (error + unit) \<times> disk \<times> world" where
  "Disk_cleanup d w =
     (case kind d of
        Raw \<Rightarrow> (Inr (), d, w)
      | _ \<Rightarrow> LoopbackDisk_cleanup d w)"

text \<open>A loop device is bound when a loopback disk records a device.\<close>

definition bound_loop :: "disk \<Rightarrow> bool" where
  "bound_loop d = (kind d \<noteq> Raw \<and> device d \<noteq> None)"

section \<open>\<^verbatim>\<open>DiskMount\<close> and \<^verbatim>\<open>ExtDiskMount\<close>\<close>

text \<open>
  One record for both classes; \<open>mkind\<close> is the class of the object. \<open>blocksize\<close> and
  \<open>fslabel\<close> are read by \<^verbatim>\<open>ExtDiskMount\<close> methods only. Private methods
  (\<^verbatim>\<open>__create\<close>, \<^verbatim>\<open>__resize_filesystem\<close>, ...) are name-mangled per class in
  Python, so \<^verbatim>\<open>DiskMount.mount\<close> always calls \<^verbatim>\<open>DiskMount.__create\<close>; they appear
  here without the underscores, \<^verbatim>\<open>__create\<close> with its class name in front.
\<close>

datatype mount_kind = GenericDisk | ExtDisk

record disk_mount =
  mkind :: mount_kind
  disk :: disk
  mountdir :: string
  fstype :: "string option"
  rmmountdir :: bool
  mounted :: bool
  rmdir :: bool
  blocksize :: int
  fslabel :: string

definition DiskMount_init :: "disk \<Rightarrow> string \<Rightarrow> string option \<Rightarrow> bool \<Rightarrow> disk_mount" where
  "DiskMount_init d dir fstp rmm =
     \<lparr>mkind = GenericDisk, disk = d, mountdir = dir, fstype = fstp, rmmountdir = rmm,
      mounted = False, rmdir = False, blocksize = 0, fslabel = []\<rparr>"

definition ExtDiskMount_init ::
  "disk \<Rightarrow> string \<Rightarrow> string option \<Rightarrow> int \<Rightarrow> string \<Rightarrow> bool \<Rightarrow> disk_mount" where
  "ExtDiskMount_init d dir fstp bs label rmm =
     \<lparr>mkind = ExtDisk, disk = d, mountdir = dir, fstype = fstp, rmmountdir = rmm,
      mounted = False, rmdir = False, blocksize = bs, fslabel = label\<rparr>"

definition DiskMount_unmount :: "disk_mount \<Rightarrow> world \<Rightarrow> (error + unit) \<times> disk_mount \<times> world" where
  "DiskMount_unmount m w =
     (case (if mounted m
            then (let (r, w1) = env_call (Exec [''/bin/umount'', mountdir m]) w
                  in if rc r = 0 then (Inr (), m\<lparr>mounted := False\<rparr>, w1)
                     else (Inl (MountError (''Unable to unmount filesystem at '' @ mountdir m)),
                           m, w1))
            else (Inr (), m, w)) of
        (Inl e, m1, w1) \<Rightarrow> (Inl e, m1, w1)
      | (Inr u, m1, w1) \<Rightarrow>
          if rmdir m1 \<and> \<not> mounted m1
          then (let (r, w2) = env_call (Rmdir (mountdir m1)) w1
                in (Inr (), m1\<lparr>rmdir := False\<rparr>, w2))
          else (Inr (), m1, w1))"

text \<open>\<^verbatim>\<open>DiskMount.cleanup\<close>: \<^verbatim>\<open>Mount.cleanup(self)\<close> is \<^verbatim>\<open>self.unmount()\<close>.\<close>

definition DiskMount_cleanup :: "disk_mount \<Rightarrow> world \<Rightarrow> (error + unit) \<times> disk_mount \<times> world" where
  "DiskMount_cleanup m w =
     (case DiskMount_unmount m w of
        (Inl e, m1, w1) \<Rightarrow> (Inl e, m1, w1)
      | (Inr u, m1, w1) \<Rightarrow>
          (case Disk_cleanup (disk m1) w1 of
             (r, d, w2) \<Rightarrow> (r, m1\<lparr>disk := d\<rparr>, w2)))"

definition DiskMount_create :: "disk_mount \<Rightarrow> world \<Rightarrow> (error + unit) \<times> disk_mount \<times> world" where
  "DiskMount_create m w =
     (case Disk_create (disk m) w of (r, d, w1) \<Rightarrow> (r, m\<lparr>disk := d\<rparr>, w1))"

definition DiskMount_mount :: "disk_mount \<Rightarrow> world \<Rightarrow> (error + unit) \<times> disk_mount \<times> world" where
  "DiskMount_mount m w =
     (if mounted m then (Inr (), m, w)
      else
        (let (i, w1) = env_call (IsDir (mountdir m)) w
         in case (if \<not> flag i
                  then (let (k, w2) = env_call (Makedirs (mountdir m)) w1
                        in if rc k \<noteq> 0 then (Inl (OSError (rc k)), m, w2)
                           else (Inr (), m\<lparr>rmdir := rmmountdir m\<rparr>, w2))
                  else (Inr (), m, w1)) of
              (Inl e, m1, w2) \<Rightarrow> (Inl e, m1, w2)
            | (Inr u, m1, w2) \<Rightarrow>
               (case DiskMount_create m1 w2 of
                  (Inl e, m2, w3) \<Rightarrow> (Inl e, m2, w3)
                | (Inr u, m2, w3) \<Rightarrow>
                   (case device (disk m2) of
                      None \<Rightarrow> (Inl TypeError, m2, w3)
                    | Some dev \<Rightarrow>
                       (let args = [''/bin/mount'', dev, mountdir m2]
                                   @ (case fstype m2 of
                                        None \<Rightarrow> []
                                      | Some t \<Rightarrow> if t = [] then [] else [''-t'', t]);
                            (r, w4) = env_call (Exec args) w3
                        in if rc r \<noteq> 0
                           then (Inl (MountError (''Failed to mount '' @ [CHR 0x27] @ dev
                                         @ [CHR 0x27] @ '' to '' @ [CHR 0x27] @ mountdir m2
                                         @ [CHR 0x27])), m2, w4)
                           else (Inr (), m2\<lparr>mounted := True\<rparr>, w4))))))"

definition format_filesystem :: "disk_mount \<Rightarrow> world \<Rightarrow> (error + unit) \<times> world" where
  "format_filesystem m w =
     (case fstype m of
        None \<Rightarrow> (Inl TypeError, w)
      | Some t \<Rightarrow>
         (case device (disk m) of
            None \<Rightarrow> (Inl TypeError, w)
          | Some dev \<Rightarrow>
             (let (r, w1) = env_call (Exec [''/sbin/mkfs.'' @ t, ''-F'', ''-L'', fslabel m,
                                ''-m'', ''1'', ''-b'', str_int (blocksize m), dev]) w
              in if rc r \<noteq> 0
                 then (Inl (MountError (''Error creating '' @ t @ '' filesystem'')), w1)
                 else
                  (let (u, w2) = env_call (Exec [''/sbin/tune2fs'', ''-c0'', ''-i0'',
                                     ''-Odir_index'', ''-ouser_xattr,acl'', dev]) w1
                   in (Inr (), w2)))))"

text \<open>
  \<^verbatim>\<open>__resize_filesystem(size)\<close> returns \<^verbatim>\<open>None\<close> when nothing is to do, else the
  target size. In Python 2, \<^verbatim>\<open>None > n\<close> is false and \<^verbatim>\<open>None == n\<close> is false.
  \<^verbatim>\<open>self.disk.expand(size)\<close> passes the size as \<^verbatim>\<open>create\<close>.
\<close>

definition resize_filesystem :: "disk_mount \<Rightarrow> int option \<Rightarrow> world \<Rightarrow> (error + int option) \<times> world" where
  "resize_filesystem m sz w =
     (case get_lofile (disk m) of
        Inl e \<Rightarrow> (Inl e, w)
      | Inr f \<Rightarrow>
         (let (s, w1) = env_call (Stat f) w
          in if rc s \<noteq> 0 then (Inl (OSError (rc s)), w1)
             else
              (let current_size = num s;
                   target = (case sz of None \<Rightarrow> disk_size (disk m) | Some n \<Rightarrow> Some n)
               in if target = Some current_size then (Inr None, w1)
                  else
                   (case (case target of
                            None \<Rightarrow> (Inr (), w1)
                          | Some n \<Rightarrow> if n > current_size
                                       then SparseLoopbackDisk_expand (disk m) (n \<noteq> 0) None w1
                                       else (Inr (), w1)) of
                      (Inl e, w2) \<Rightarrow> (Inl e, w2)
                    | (Inr u, w2) \<Rightarrow>
                       (case resize2fs (Some f) target False w2 of
                          (Inl e, w3) \<Rightarrow> (Inl e, w3)
                        | (Inr ret, w3) \<Rightarrow> (Inr target, w3))))))"

definition ExtDiskMount_create :: "disk_mount \<Rightarrow> world \<Rightarrow> (error + unit) \<times> disk_mount \<times> world" where
  "ExtDiskMount_create m w =
     (let (resize, w1) = (if \<not> fixed (disk m) then exists (disk m) w else (False, w))
      in case Disk_create (disk m) w1 of
           (Inl e, d, w2) \<Rightarrow> (Inl e, m\<lparr>disk := d\<rparr>, w2)
         | (Inr u, d, w2) \<Rightarrow>
            (if resize
             then (case resize_filesystem (m\<lparr>disk := d\<rparr>) None w2 of
                     (Inl e, w3) \<Rightarrow> (Inl e, m\<lparr>disk := d\<rparr>, w3)
                   | (Inr v, w3) \<Rightarrow> (Inr (), m\<lparr>disk := d\<rparr>, w3))
             else (case format_filesystem (m\<lparr>disk := d\<rparr>) w2 of
                     (r, w3) \<Rightarrow> (r, m\<lparr>disk := d\<rparr>, w3))))"

definition ExtDiskMount_mount :: "disk_mount \<Rightarrow> world \<Rightarrow> (error + unit) \<times> disk_mount \<times> world" where
  "ExtDiskMount_mount m w =
     (case ExtDiskMount_create m w of
        (Inl e, m1, w1) \<Rightarrow> (Inl e, m1, w1)
      | (Inr u, m1, w1) \<Rightarrow> DiskMount_mount m1 w1)"

text \<open>\<^verbatim>\<open>m.mount()\<close>, \<^verbatim>\<open>m.unmount()\<close> and \<^verbatim>\<open>m.cleanup()\<close>, dispatched on the class.\<close>

definition Mount_mount :: "disk_mount \<Rightarrow> world \<Rightarrow> (error + unit) \<times> disk_mount \<times> world" where
  "Mount_mount m w =
     (case mkind m of GenericDisk \<Rightarrow> DiskMount_mount m w | ExtDisk \<Rightarrow> ExtDiskMount_mount m w)"

definition Mount_unmount :: "disk_mount \<Rightarrow> world \<Rightarrow> (error + unit) \<times> disk_mount \<times> world" where
  "Mount_unmount m w = DiskMount_unmount m w"

definition Mount_cleanup :: "disk_mount \<Rightarrow> world \<Rightarrow> (error + unit) \<times> disk_mount \<times> world" where
  "Mount_cleanup m w = DiskMount_cleanup m w"

fun find_field :: "string \<Rightarrow> string list \<Rightarrow> error + string" where
  "find_field field [] =
     Inl (KeyError (''Failed to find field '' @ [CHR 0x27] @ field @ [CHR 0x27] @ '' in output''))"
| "find_field field (line # ls) =
     (if startswith line (field @ '':'') then Inr (strip (drop (length field + 1) line))
      else find_field field ls)"

definition parse_field :: "string \<Rightarrow> string \<Rightarrow> error + string" where
  "parse_field output field = find_field field (split_on (CHR 0x0A) output)"

definition get_size_from_filesystem :: "disk_mount \<Rightarrow> world \<Rightarrow> (error + int) \<times> world" where
  "get_size_from_filesystem m w =
     (case get_lofile (disk m) of
        Inl e \<Rightarrow> (Inl e, w)
      | Inr f \<Rightarrow>
         (let (r, w1) = env_call (Exec [''/sbin/dumpe2fs'', ''-h'', f]) w
          in case parse_field (out r) ''Block count'' of
               Inl e \<Rightarrow> (Inl e, w1)
             | Inr v \<Rightarrow>
                (case py_int v of
                   None \<Rightarrow> (Inl ValueError, w1)
                 | Some n \<Rightarrow> (Inr (n * blocksize m), w1))))"

definition resize_to_minimal :: "disk_mount \<Rightarrow> world \<Rightarrow> (error + int) \<times> world" where
  "resize_to_minimal m w =
     (case get_lofile (disk m) of
        Inl e \<Rightarrow> (Inl e, w)
      | Inr f \<Rightarrow>
         (case resize2fs (Some f) None True w of
            (Inl e, w1) \<Rightarrow> (Inl e, w1)
          | (Inr ret, w1) \<Rightarrow> get_size_from_filesystem m w1))"

definition resparse :: "disk_mount \<Rightarrow> int option \<Rightarrow> world \<Rightarrow> (error + int) \<times> disk_mount \<times> world" where
  "resparse m sz w =
     (case Mount_cleanup m w of
        (Inl e, m1, w1) \<Rightarrow> (Inl e, m1, w1)
      | (Inr u, m1, w1) \<Rightarrow>
         (case resize_to_minimal m1 w1 of
            (Inl e, w2) \<Rightarrow> (Inl e, m1, w2)
          | (Inr minsize, w2) \<Rightarrow>
             (case SparseLoopbackDisk_truncate (disk m1) (Some minsize) w2 of
                (Inl e, w3) \<Rightarrow> (Inl e, m1, w3)
              | (Inr u, w3) \<Rightarrow>
                 (case resize_filesystem m1 sz w3 of
                    (Inl e, w4) \<Rightarrow> (Inl e, m1, w4)
                  | (Inr v, w4) \<Rightarrow> (Inr minsize, m1, w4)))))"

section \<open>\<^verbatim>\<open>DeviceMapperSnapshot\<close>\<close>

text \<open>
  The snapshot holds its two disks; \<open>created\<close> and \<open>name\<close> are the private attributes
  \<^verbatim>\<open>__created\<close> and \<^verbatim>\<open>__name\<close>. The two disks are distinct objects, as in
  \<^verbatim>\<open>create_image_minimizer\<close>.
\<close>

record snapshot =
  imgloop :: disk
  cowloop :: disk
  created :: bool
  name :: "string option"

definition DeviceMapperSnapshot_init :: "disk \<Rightarrow> disk \<Rightarrow> snapshot" where
  "DeviceMapperSnapshot_init img cow =
     \<lparr>imgloop = img, cowloop = cow, created = False, name = None\<rparr>"

definition get_path :: "snapshot \<Rightarrow> string option" where
  "get_path s = (case name s of None \<Rightarrow> None | Some n \<Rightarrow> Some (path_join ''/dev/mapper'' n))"

definition create :: "snapshot \<Rightarrow> world \<Rightarrow> (error + unit) \<times> snapshot \<times> world" where
  "create s w =
     (if created s then (Inr (), s, w)
      else
       (case Disk_create (imgloop s) w of
          (Inl e, d1, w1) \<Rightarrow> (Inl e, s\<lparr>imgloop := d1\<rparr>, w1)
        | (Inr u, d1, w1) \<Rightarrow>
           (case Disk_create (cowloop s) w1 of
              (Inl e, d2, w2) \<Rightarrow> (Inl e, s\<lparr>imgloop := d1, cowloop := d2\<rparr>, w2)
            | (Inr u, d2, w2) \<Rightarrow>
               (let (p, w3) = env_call Getpid w2;
                    (q, w4) = env_call Randint w3;
                    nm = ''imgcreate-'' @ str_int (num p) @ ''-'' @ str_int (num q);
                    s1 = s\<lparr>imgloop := d1, cowloop := d2, name := Some nm\<rparr>
                in case get_lofile d1 of
                     Inl e \<Rightarrow> (Inl e, s1, w4)
                   | Inr f \<Rightarrow>
                      (let (st, w5) = env_call (Stat f) w4
                       in if rc st \<noteq> 0 then (Inl (OSError (rc st)), s1, w5)
                          else
                           (let table = ''0 '' @ str_int (num st div 512) @ '' snapshot ''
                                          @ str_opt (device d1) @ '' '' @ str_opt (device d2)
                                          @ '' p 8'';
                                args = [''/sbin/dmsetup'', ''create'', nm, ''--table'', table];
                                (r, w6) = env_call (Exec args) w5
                            in if rc r \<noteq> 0
                               then (case Disk_cleanup d2 w6 of
                                       (r2, c2, w7) \<Rightarrow>
                                        (case Disk_cleanup d1 w7 of
                                           (r1, c1, w8) \<Rightarrow>
                                            (Inl (SnapshotError
                                               (''Could not create snapshot device using: ''
                                                @ join_sp args)),
                                             s1\<lparr>cowloop := c2, imgloop := c1\<rparr>, w8)))
                               else (Inr (), s1\<lparr>created := True\<rparr>, w6)))))))"

definition remove :: "snapshot \<Rightarrow> bool \<Rightarrow> world \<Rightarrow> (error + unit) \<times> snapshot \<times> world" where
  "remove s ignore_errors w =
     (if \<not> created s then (Inr (), s, w)
      else
       (case name s of
          None \<Rightarrow> (Inl TypeError, s, w)
        | Some nm \<Rightarrow>
           (let (r, w1) = env_call (Exec [''/sbin/dmsetup'', ''remove'', nm]) w
            in if \<not> ignore_errors \<and> rc r \<noteq> 0
               then (Inl (SnapshotError ''Could not remove snapshot device''), s, w1)
               else
                (let s1 = s\<lparr>name := None, created := False\<rparr>
                 in case Disk_cleanup (cowloop s1) w1 of
                      (r2, c2, w2) \<Rightarrow>
                       (case Disk_cleanup (imgloop s1) w2 of
                          (r1, c1, w3) \<Rightarrow> (Inr (), s1\<lparr>cowloop := c2, imgloop := c1\<rparr>, w3))))))"

definition get_cow_used :: "snapshot \<Rightarrow> world \<Rightarrow> (error + int) \<times> world" where
  "get_cow_used s w =
     (if \<not> created s then (Inr 0, w)
      else
       (case name s of
          None \<Rightarrow> (Inl TypeError, w)
        | Some nm \<Rightarrow>
           (let (r, w1) = env_call (Exec [''/sbin/dmsetup'', ''status'', nm]) w
            in case py_nth (py_split (out r)) 3 of
                 Inl e \<Rightarrow> (Inl e, w1)
               | Inr tok \<Rightarrow>
                  (case py_nth (split_on (CHR ''/'') tok) 0 of
                     Inl e \<Rightarrow> (Inl e, w1)
                   | Inr used \<Rightarrow>
                      (case py_int used of
                         None \<Rightarrow> (Inl (SnapshotError (''Failed to parse dmsetup status: ''
                                          @ out r)), w1)
                       | Some n \<Rightarrow> (Inr (n * 512), w1))))))"

section \<open>\<^verbatim>\<open>create_image_minimizer\<close>\<close>

text \<open>
  The \<^verbatim>\<open>try\<close> body is \<open>minimizer_body\<close>; the \<^verbatim>\<open>finally\<close> clause runs
  \<^verbatim>\<open>remove\<close> with \<^verbatim>\<open>ignore_errors\<close> true exactly when the body raised (the function
  is taken to be called outside of any exception handler, so that \<^verbatim>\<open>sys.exc_info()\<close>
  is empty on entry). An exception raised by the \<^verbatim>\<open>finally\<close> clause replaces the
  result of the body. The snapshot is returned with the result so that its final state can
  be observed.
\<close>

definition minimizer_body :: "snapshot \<Rightarrow> int option \<Rightarrow> world \<Rightarrow> (error + int) \<times> snapshot \<times> world" where
  "minimizer_body s0 minimal_size w =
     (case create s0 w of
        (Inl e, s1, w1) \<Rightarrow> (Inl e, s1, w1)
      | (Inr u, s1, w1) \<Rightarrow>
         (case resize2fs (get_path s1) minimal_size False w1 of
            (Inl e, w2) \<Rightarrow> (Inl e, s1, w2)
          | (Inr ret, w2) \<Rightarrow>
             (case get_cow_used s1 w2 of
                (Inl e, w3) \<Rightarrow> (Inl e, s1, w3)
              | (Inr cow_used, w3) \<Rightarrow> (Inr cow_used, s1, w3))))"

definition create_image_minimizer ::
  "string \<Rightarrow> string \<Rightarrow> int option \<Rightarrow> world \<Rightarrow> (error + unit) \<times> snapshot \<times> world" where
  "create_image_minimizer path img minimal_size w =
     (let imgloop0 = LoopbackDisk_init img None;
          cowloop0 = SparseLoopbackDisk_init (path_join (dirname path) ''osmin'')
                       (Some (64 * 1024 * 1024));
          s0 = DeviceMapperSnapshot_init imgloop0 cowloop0
      in case minimizer_body s0 minimal_size w of
           (rb, s1, w1) \<Rightarrow>
            (case remove s1 (raises rb) w1 of
               (Inl e, s2, w2) \<Rightarrow> (Inl e, s2, w2)
             | (Inr u, s2, w2) \<Rightarrow>
                (case rb of
                   Inl e \<Rightarrow> (Inl e, s2, w2)
                 | Inr cow_used \<Rightarrow>
                    (case SparseLoopbackDisk_truncate (cowloop s2) (Some cow_used) w2 of
                       (Inl e, w3) \<Rightarrow> (Inl e, s2, w3)
                     | (Inr u, w3) \<Rightarrow>
                        (case mksquashfs (lofile (cowloop s2)) path w3 of
                           (Inl e, w4) \<Rightarrow> (Inl e, s2, w4)
                         | (Inr u, w4) \<Rightarrow>
                            (let (r, w5) = env_call (Unlink (lofile (cowloop s2))) w4
                             in if rc r \<noteq> 0 then (Inl (OSError (rc r)), s2, w5)
                                else (Inr (), s2, w5)))))))"

section \<open>Vocabulary for the properties\<close>

text \<open>\<open>raises_with P r\<close>: the result \<open>r\<close> is an exception of the class recognised by \<open>P\<close>.\<close>

fun raises_with :: "(error \<Rightarrow> bool) \<Rightarrow> error + 'a \<Rightarrow> bool" where
  "raises_with P (Inl e) = P e"
| "raises_with P (Inr v) = False"

text \<open>Worlds and replies for concrete runs.\<close>

definition fresh_world :: "reply list \<Rightarrow> world" where
  "fresh_world rs = \<lparr>replies = rs, trace = []\<rparr>"

definition exit_status :: "int \<Rightarrow> reply" where
  "exit_status n = \<lparr>rc = n, out = [], num = 0, flag = False\<rparr>"

definition stdout_of :: "string \<Rightarrow> reply" where
  "stdout_of s = \<lparr>rc = 0, out = s, num = 0, flag = False\<rparr>"

definition number :: "int \<Rightarrow> reply" where
  "number n = \<lparr>rc = 0, out = [], num = n, flag = False\<rparr>"

text \<open>
  A snapshot object is well formed when a created snapshot has a name. The constructor
  establishes this and \<^verbatim>\<open>create\<close> and \<^verbatim>\<open>remove\<close> keep it (lemmas
  \<open>snapshot_ok_init\<close>, \<open>snapshot_ok_create\<close>, \<open>snapshot_ok_remove\<close>).
\<close>

definition snapshot_ok :: "snapshot \<Rightarrow> bool" where
  "snapshot_ok s = (if created s then name s \<noteq> None else True)"

text \<open>The command that \<^verbatim>\<open>cleanup()\<close> of a disk runs: none unless a loop device is bound.\<close>

definition detach_cmd :: "disk \<Rightarrow> string list list" where
  "detach_cmd d =
     (case device d of
        None \<Rightarrow> []
      | Some dev \<Rightarrow> if kind d = Raw then [] else [[''/sbin/losetup'', ''-d'', dev]])"

text \<open>A created snapshot over two bound loopback disks, for concrete runs.\<close>

definition example_snapshot :: snapshot where
  "example_snapshot =
     \<lparr>imgloop = \<lparr>kind = Loopback, disk_size = None, device = Some ''/dev/loop0'',
                 lofile = ''fs.img''\<rparr>,
      cowloop = \<lparr>kind = SparseLoopback, disk_size = Some 67108864,
                 device = Some ''/dev/loop1'', lofile = ''out/osmin''\<rparr>,
      created = True, name = Some ''imgcreate-7-9''\<rparr>"

text \<open>The snapshot that \<^verbatim>\<open>create_image_minimizer\<close> builds, for concrete runs.\<close>

definition fresh_snapshot :: snapshot where
  "fresh_snapshot =
     DeviceMapperSnapshot_init (LoopbackDisk_init ''fs.img'' None)
       (SparseLoopbackDisk_init ''out/osmin'' (Some 67108864))"

text \<open>
  Answers under which both loop devices are set up (\<^verbatim>\<open>losetup -f\<close>, \<^verbatim>\<open>losetup\<close> for
  the image; \<^verbatim>\<open>makedirs\<close>, file extension, \<^verbatim>\<open>losetup -f\<close>, \<^verbatim>\<open>losetup\<close> for the COW
  file), then process id 7, random number 9 and image size 2048.
\<close>

definition loops_ok :: "reply list" where
  "loops_ok = [stdout_of ''/dev/loop0'', exit_status 0, exit_status 0, exit_status 0,
               stdout_of ''/dev/loop1'', exit_status 0, number 7, number 9, number 2048]"

text \<open>
  Answers under which the image loop device is set up and the COW file is extended, and then
  \<^verbatim>\<open>losetup -f\<close> for the COW file fails.
\<close>

definition cow_loop_fails :: "reply list" where
  "cow_loop_fails = [stdout_of ''/dev/loop0'', exit_status 0, exit_status 0, exit_status 0,
                     exit_status 1]"

text \<open>A mounted generic mount over a bound loopback disk, and a mounted bind mount.\<close>

definition example_mount :: disk_mount where
  "example_mount =
     \<lparr>mkind = GenericDisk,
      disk = \<lparr>kind = Loopback, disk_size = Some 0, device = Some ''/dev/loop0'',
              lofile = ''fs.img''\<rparr>,
      mountdir = ''/mnt/img'', fstype = None, rmmountdir = True, mounted = True,
      rmdir = True, blocksize = 0, fslabel = []\<rparr>"

definition example_bind :: bind_mount where
  "example_bind = (BindChrootMount_init ''/dev'' ''/var/tmp/root'' None)\<lparr>b_mounted := True\<rparr>"

text \<open>A mounted ext-aware mount over a raw device.\<close>

definition example_ext_mount :: disk_mount where
  "example_ext_mount =
     (ExtDiskMount_init (RawDisk_init None (Some ''/dev/sdb1'')) ''/mnt/img'' (Some ''ext3'')
        4096 ''root'' True)\<lparr>mounted := True\<rparr>"

text \<open>A reply of a successful tool that prints a loop device and answers "yes".\<close>

definition loop_reply :: reply where
  "loop_reply = \<lparr>rc = 0, out = ''/dev/loop0'', num = 0, flag = True\<rparr>"

text \<open>A raw-device mount that is not mounted, and a new loopback disk.\<close>

definition example_raw_mount :: disk_mount where
  "example_raw_mount =
     ExtDiskMount_init (RawDisk_init None (Some ''/dev/sdb1'')) ''/mnt/img'' (Some ''ext3'')
       4096 ''root'' True"

definition example_loop_disk :: disk where
  "example_loop_disk = LoopbackDisk_init ''fs.img'' None"

text \<open>
  Answers to \<^verbatim>\<open>resize2fs\<close>: the first check, \<^verbatim>\<open>mkstemp\<close>, \<^verbatim>\<open>e2image\<close>, then either a
  failing resize tool, or a successful one followed by a failing second check.
\<close>

definition resize_tool_fails :: "reply list" where
  "resize_tool_fails =
     [exit_status 0, stdout_of ''/tmp/resize-image-a'', exit_status 0, exit_status 1]"

definition second_check_fails :: "reply list" where
  "second_check_fails =
     [exit_status 0, stdout_of ''/tmp/resize-image-a'', exit_status 0, exit_status 0,
      exit_status 8]"

text \<open>
  The steps of \<^verbatim>\<open>resparse\<close> that matter for its contract: unmounting, detaching the loop
  device, running the resize tool, truncating the backing file and reading its size.
  \<open>key_actions w w'\<close> lists them, in order, among the events between two worlds.
\<close>

fun key_event :: "action \<times> reply \<Rightarrow> bool" where
  "key_event (Exec (p # args), r) =
     (p = ''/bin/umount'' \<or> p = ''/sbin/losetup'' \<or> p = ''/sbin/resize2fs'')"
| "key_event (Ftruncate f n, r) = True"
| "key_event (Stat f, r) = True"
| "key_event (a, r) = False"

definition key_actions :: "world \<Rightarrow> world \<Rightarrow> action list" where
  "key_actions w w' = map fst (filter key_event (new_events w w'))"

text \<open>The size that the last step of \<^verbatim>\<open>resparse(size)\<close> resizes to.\<close>

definition resize_target :: "disk_mount \<Rightarrow> int option \<Rightarrow> int option" where
  "resize_target m sz = (case sz of None \<Rightarrow> disk_size (disk m) | Some n \<Rightarrow> Some n)"

text \<open>An ext-aware mount over a sparse file of declared size 64 MiB, not mounted.\<close>

definition example_sparse_mount :: disk_mount where
  "example_sparse_mount =
     ExtDiskMount_init (SparseLoopbackDisk_init ''fs.img'' (Some 67108864)) ''/mnt/img''
       (Some ''ext3'') 4096 ''root'' True"

text \<open>
  Answers to \<^verbatim>\<open>resparse\<close> on that mount: the minimal resize succeeds (check, \<^verbatim>\<open>mkstemp\<close>,
  \<^verbatim>\<open>e2image\<close>, resize, check, unlink), \<^verbatim>\<open>dumpe2fs\<close> reports 100 blocks, the truncation
  succeeds and the file size is then 409600.
\<close>

definition resparse_replies :: "reply list" where
  "resparse_replies =
     [exit_status 0, stdout_of ''/tmp/resize-image-a'', exit_status 0, exit_status 0,
      exit_status 0, exit_status 0, stdout_of ''Block count:              100'',
      exit_status 0, number 409600]"

text \<open>
  The size that \<^verbatim>\<open>__get_size_from_filesystem\<close> reads from an answer of \<^verbatim>\<open>dumpe2fs\<close>:
  the block count times the block size of the mount.
\<close>

definition reported_size :: "disk_mount \<Rightarrow> reply \<Rightarrow> int option" where
  "reported_size m r =
     (case parse_field (out r) ''Block count'' of
        Inl e \<Rightarrow> None
      | Inr fld \<Rightarrow> (case py_int fld of None \<Rightarrow> None | Some n \<Rightarrow> Some (n * blocksize m)))"

section \<open>Verified properties\<close>

subsection \<open>The environment\<close>

lemma execs_advance: "execs (advance a w) = execs w @ exec_args (a, next_reply w)"
  by (simp add: execs_def advance_def)

lemma trace_advance: "trace (advance a w) = trace w @ [(a, next_reply w)]"
  by (simp add: advance_def)

lemma ok_reply_simps [simp]:
  "rc ok_reply = 0" "out ok_reply = []" "num ok_reply = 0" "flag ok_reply = False"
  by (simp_all add: ok_reply_def)

subsection \<open>Argument check of \<^verbatim>\<open>resize2fs\<close>\<close>

text \<open>
  Claim C8. Calling \<^verbatim>\<open>resize2fs\<close> with both a size and \<^verbatim>\<open>minimal\<close>, or with neither,
  raises \<open>RuntimeError\<close> (the caller-configuration error) and leaves the world as it was:
  no command has run and no reply was consumed. With exactly one of the two, the call never
  raises \<open>RuntimeError\<close>, whatever the tools answer.
\<close>

theorem resize2fs_argument_check:
  "((minimal \<and> sz \<noteq> None) \<or> (\<not> minimal \<and> sz = None) \<longrightarrow>
      (\<exists>msg. resize2fs fs sz minimal w = (Inl (RuntimeError msg), w)))
   \<and> ((minimal \<and> sz = None) \<or> (\<not> minimal \<and> sz \<noteq> None) \<longrightarrow>
      \<not> raises_with is_runtime_error (fst (resize2fs fs sz minimal w)))"
proof (intro conjI impI)
  assume "(minimal \<and> sz \<noteq> None) \<or> (\<not> minimal \<and> sz = None)"
  then show "\<exists>msg. resize2fs fs sz minimal w = (Inl (RuntimeError msg), w)"
    by (auto simp: resize2fs_def)
next
  assume "(minimal \<and> sz = None) \<or> (\<not> minimal \<and> sz \<noteq> None)"
  then show "\<not> raises_with is_runtime_error (fst (resize2fs fs sz minimal w))"
    by (auto simp: resize2fs_def e2fsck_def env_call_def Let_def
          split: option.splits prod.splits sum.splits)
qed

theorem resize2fs_argument_check_witness:
  "(\<exists>msg. resize2fs (Some ''fs.img'') (Some 4096) True (fresh_world [])
            = (Inl (RuntimeError msg), fresh_world []))
   \<and> (\<exists>msg. resize2fs (Some ''fs.img'') None False (fresh_world [])
            = (Inl (RuntimeError msg), fresh_world []))
   \<and> \<not> raises_with is_runtime_error
         (fst (resize2fs (Some ''fs.img'') (Some 4096) False (fresh_world [])))
   \<and> \<not> raises_with is_runtime_error
         (fst (resize2fs (Some ''fs.img'') None True (fresh_world [])))"
  using resize2fs_argument_check [of True "Some 4096" "Some ''fs.img''" "fresh_world []"]
        resize2fs_argument_check [of False None "Some ''fs.img''" "fresh_world []"]
        resize2fs_argument_check [of False "Some 4096" "Some ''fs.img''" "fresh_world []"]
        resize2fs_argument_check [of True None "Some ''fs.img''" "fresh_world []"]
  by simp

subsection \<open>\<^verbatim>\<open>DiskMount.cleanup\<close> when unmounting fails\<close>

text \<open>
  Claim C10. \<^verbatim>\<open>DiskMount.cleanup()\<close> unmounts first and cleans up its disk afterwards.
  When the mount is mounted and \<^verbatim>\<open>umount\<close> exits with a nonzero status, \<^verbatim>\<open>cleanup()\<close>
  raises a mount error, the object is unchanged (its disk keeps the device it had, so a
  bound loop device stays bound) and the \<^verbatim>\<open>umount\<close> invocation is the only thing that
  happened. When \<^verbatim>\<open>umount\<close> succeeds on a mount over a bound loopback disk, the commands
  run are \<^verbatim>\<open>umount\<close> and then \<^verbatim>\<open>losetup -d\<close>, in this order.
\<close>

theorem DiskMount_cleanup_unmount_first:
  "(mounted m \<and> rc (next_reply w) \<noteq> 0 \<longrightarrow>
      (\<exists>msg. DiskMount_cleanup m w
          = (Inl (MountError msg), m, advance (Exec [''/bin/umount'', mountdir m]) w)))
   \<and> (mounted m \<and> rc (next_reply w) = 0 \<and> kind (disk m) \<noteq> Raw \<and> device (disk m) = Some dev \<longrightarrow>
      (\<exists>m' w'. DiskMount_cleanup m w = (Inr (), m', w') \<and> \<not> mounted m'
          \<and> device (disk m') = None
          \<and> execs w' = execs w @ [[''/bin/umount'', mountdir m], [''/sbin/losetup'', ''-d'', dev]]))"
  by (cases "kind (disk m)")
     (auto simp: DiskMount_cleanup_def DiskMount_unmount_def Disk_cleanup_def
        LoopbackDisk_cleanup_def env_call_def Let_def execs_advance)

theorem DiskMount_cleanup_unmount_first_witness:
  "(\<exists>msg. DiskMount_cleanup
        \<lparr>mkind = GenericDisk,
         disk = \<lparr>kind = Loopback, disk_size = Some 0, device = Some ''/dev/loop0'',
                 lofile = ''fs.img''\<rparr>,
         mountdir = ''/mnt/img'', fstype = None, rmmountdir = True, mounted = True,
         rmdir = False, blocksize = 0, fslabel = []\<rparr>
        (fresh_world [exit_status 32])
      = (Inl (MountError msg),
         \<lparr>mkind = GenericDisk,
          disk = \<lparr>kind = Loopback, disk_size = Some 0, device = Some ''/dev/loop0'',
                  lofile = ''fs.img''\<rparr>,
          mountdir = ''/mnt/img'', fstype = None, rmmountdir = True, mounted = True,
          rmdir = False, blocksize = 0, fslabel = []\<rparr>,
         \<lparr>replies = [], trace = [(Exec [''/bin/umount'', ''/mnt/img''], exit_status 32)]\<rparr>))
   \<and> (\<exists>m' w'. DiskMount_cleanup
        \<lparr>mkind = GenericDisk,
         disk = \<lparr>kind = Loopback, disk_size = Some 0, device = Some ''/dev/loop0'',
                 lofile = ''fs.img''\<rparr>,
         mountdir = ''/mnt/img'', fstype = None, rmmountdir = True, mounted = True,
         rmdir = False, blocksize = 0, fslabel = []\<rparr>
        (fresh_world []) = (Inr (), m', w')
        \<and> \<not> mounted m' \<and> device (disk m') = None
        \<and> execs w' = [[''/bin/umount'', ''/mnt/img''], [''/sbin/losetup'', ''-d'', ''/dev/loop0'']])"
  using DiskMount_cleanup_unmount_first
          [where m = "\<lparr>mkind = GenericDisk,
                 disk = \<lparr>kind = Loopback, disk_size = Some 0, device = Some ''/dev/loop0'',
                         lofile = ''fs.img''\<rparr>,
                 mountdir = ''/mnt/img'', fstype = None, rmmountdir = True, mounted = True,
                 rmdir = False, blocksize = 0, fslabel = []\<rparr>"
             and w = "fresh_world [exit_status 32]"
             and dev = "''/dev/loop0''"]
        DiskMount_cleanup_unmount_first
          [where m = "\<lparr>mkind = GenericDisk,
                 disk = \<lparr>kind = Loopback, disk_size = Some 0, device = Some ''/dev/loop0'',
                         lofile = ''fs.img''\<rparr>,
                 mountdir = ''/mnt/img'', fstype = None, rmmountdir = True, mounted = True,
                 rmdir = False, blocksize = 0, fslabel = []\<rparr>"
             and w = "fresh_world []"
             and dev = "''/dev/loop0''"]
  by (simp add: next_reply_def ok_reply_def advance_def execs_def fresh_world_def exit_status_def)

subsection \<open>\<^verbatim>\<open>DeviceMapperSnapshot.remove\<close>\<close>

lemma Disk_cleanup_result:
  "\<exists>d' w'. Disk_cleanup d w = (Inr (), d', w') \<and> \<not> bound_loop d'
      \<and> kind d' = kind d \<and> lofile d' = lofile d \<and> disk_size d' = disk_size d
      \<and> execs w' = execs w @ detach_cmd d"
  by (cases "kind d"; cases "device d")
     (simp_all add: Disk_cleanup_def LoopbackDisk_cleanup_def bound_loop_def env_call_def
        detach_cmd_def execs_advance)

lemma remove_not_created: "\<not> created s \<Longrightarrow> remove s ig w = (Inr (), s, w)"
  by (simp add: remove_def)

lemma remove_raises:
  assumes "created s" and "name s = Some nm" and "\<not> ig" and "rc (next_reply w) \<noteq> 0"
  shows "remove s ig w = (Inl (SnapshotError ''Could not remove snapshot device''), s,
            advance (Exec [''/sbin/dmsetup'', ''remove'', nm]) w)"
  using assms by (simp add: remove_def env_call_def)

lemma remove_resets:
  assumes "created s" and "name s = Some nm" and "ig \<or> rc (next_reply w) = 0"
  shows "\<exists>s' w'. remove s ig w = (Inr (), s', w') \<and> name s' = None \<and> \<not> created s'
           \<and> \<not> bound_loop (imgloop s') \<and> \<not> bound_loop (cowloop s')
           \<and> execs w' = execs w @ [[''/sbin/dmsetup'', ''remove'', nm]]
                 @ detach_cmd (cowloop s) @ detach_cmd (imgloop s)"
proof -
  let ?w1 = "advance (Exec [''/sbin/dmsetup'', ''remove'', nm]) w"
  obtain c2 w2 where c2: "Disk_cleanup (cowloop s) ?w1 = (Inr (), c2, w2)" "\<not> bound_loop c2"
      "execs w2 = execs ?w1 @ detach_cmd (cowloop s)"
    using Disk_cleanup_result by blast
  obtain c1 w3 where c1: "Disk_cleanup (imgloop s) w2 = (Inr (), c1, w3)" "\<not> bound_loop c1"
      "execs w3 = execs w2 @ detach_cmd (imgloop s)"
    using Disk_cleanup_result by blast
  show ?thesis using assms c1 c2
    by (auto simp: remove_def env_call_def execs_advance)
qed

text \<open>
  Claim C3, amended. \<^verbatim>\<open>remove(ignore_errors=True)\<close> never raises. Whenever removal is
  attempted (the snapshot is created) and the \<^verbatim>\<open>dmsetup remove\<close> command succeeds or
  errors are ignored, the name and the created flag are reset and both disks are cleaned
  up, the commands being \<^verbatim>\<open>dmsetup remove\<close>, then the detach of the COW disk, then the
  detach of the image disk. When the command fails and errors are not ignored, \<^verbatim>\<open>remove\<close>
  raises a snapshot error right after the command and the object is unchanged: name, created
  flag and both disks stay as they were.
\<close>

theorem remove_resets_unless_raised:
  "(snapshot_ok s \<longrightarrow> \<not> raises (fst (remove s True w)))
   \<and> (snapshot_ok s \<and> created s \<and> (ig \<or> rc (next_reply w) = 0) \<longrightarrow>
        (\<exists>s' w'. remove s ig w = (Inr (), s', w') \<and> name s' = None \<and> \<not> created s'
           \<and> \<not> bound_loop (imgloop s') \<and> \<not> bound_loop (cowloop s')
           \<and> execs w' = execs w @ [[''/sbin/dmsetup'', ''remove'', the (name s)]]
                 @ detach_cmd (cowloop s) @ detach_cmd (imgloop s)))
   \<and> (snapshot_ok s \<and> created s \<and> \<not> ig \<and> rc (next_reply w) \<noteq> 0 \<longrightarrow>
        (\<exists>msg. remove s ig w = (Inl (SnapshotError msg), s,
            advance (Exec [''/sbin/dmsetup'', ''remove'', the (name s)]) w)))"
proof (intro conjI impI)
  assume ok: "snapshot_ok s"
  show "\<not> raises (fst (remove s True w))"
  proof (cases "created s")
    case False
    then show ?thesis by (simp add: remove_not_created)
  next
    case True
    with ok obtain nm where "name s = Some nm" by (auto simp: snapshot_ok_def)
    with True show ?thesis using remove_resets [of s nm True w] by auto
  qed
next
  assume a: "snapshot_ok s \<and> created s \<and> (ig \<or> rc (next_reply w) = 0)"
  then obtain nm where "name s = Some nm" by (auto simp: snapshot_ok_def)
  with a show "\<exists>s' w'. remove s ig w = (Inr (), s', w') \<and> name s' = None \<and> \<not> created s'
           \<and> \<not> bound_loop (imgloop s') \<and> \<not> bound_loop (cowloop s')
           \<and> execs w' = execs w @ [[''/sbin/dmsetup'', ''remove'', the (name s)]]
                 @ detach_cmd (cowloop s) @ detach_cmd (imgloop s)"
    using remove_resets [of s nm ig w] by simp
next
  assume a: "snapshot_ok s \<and> created s \<and> \<not> ig \<and> rc (next_reply w) \<noteq> 0"
  then obtain nm where "name s = Some nm" by (auto simp: snapshot_ok_def)
  with a show "\<exists>msg. remove s ig w = (Inl (SnapshotError msg), s,
            advance (Exec [''/sbin/dmsetup'', ''remove'', the (name s)]) w)"
    using remove_raises [of s nm ig w] by simp
qed

theorem remove_resets_unless_raised_witness:
  "\<not> raises (fst (remove example_snapshot True (fresh_world [exit_status 1])))
   \<and> (\<exists>s' w'. remove example_snapshot True (fresh_world [exit_status 1]) = (Inr (), s', w')
         \<and> name s' = None \<and> \<not> created s'
         \<and> \<not> bound_loop (imgloop s') \<and> \<not> bound_loop (cowloop s')
         \<and> execs w' = [[''/sbin/dmsetup'', ''remove'', ''imgcreate-7-9''],
                         [''/sbin/losetup'', ''-d'', ''/dev/loop1''],
                         [''/sbin/losetup'', ''-d'', ''/dev/loop0'']])
   \<and> (\<exists>msg. remove example_snapshot False (fresh_world [exit_status 1])
         = (Inl (SnapshotError msg), example_snapshot,
            \<lparr>replies = [],
             trace = [(Exec [''/sbin/dmsetup'', ''remove'', ''imgcreate-7-9''], exit_status 1)]\<rparr>))"
  using remove_resets_unless_raised [of example_snapshot "fresh_world [exit_status 1]" True]
        remove_resets_unless_raised [of example_snapshot "fresh_world [exit_status 1]" False]
  by (simp add: snapshot_ok_def example_snapshot_def fresh_world_def exit_status_def
        next_reply_def advance_def execs_def detach_cmd_def)

text \<open>
  Claim C3 as stated fails: with \<^verbatim>\<open>ignore_errors\<close> false and a failing
  \<^verbatim>\<open>dmsetup remove\<close>, removal was attempted, yet the snapshot stays created, keeps its
  name and both loop devices stay bound.
\<close>

theorem remove_failure_keeps_state_counterexample:
  "raises (fst (remove example_snapshot False (fresh_world [exit_status 1])))
   \<and> created (fst (snd (remove example_snapshot False (fresh_world [exit_status 1]))))
   \<and> name (fst (snd (remove example_snapshot False (fresh_world [exit_status 1]))))
        = Some ''imgcreate-7-9''
   \<and> bound_loop (imgloop (fst (snd (remove example_snapshot False (fresh_world [exit_status 1])))))
   \<and> bound_loop (cowloop (fst (snd (remove example_snapshot False (fresh_world [exit_status 1])))))
   \<and> execs (snd (snd (remove example_snapshot False (fresh_world [exit_status 1]))))
        = [[''/sbin/dmsetup'', ''remove'', ''imgcreate-7-9'']]"
  by (simp add: remove_def example_snapshot_def fresh_world_def exit_status_def env_call_def
        next_reply_def advance_def execs_def bound_loop_def)

subsection \<open>\<^verbatim>\<open>DeviceMapperSnapshot.get_cow_used\<close>\<close>

lemma split_on_acc_first:
  "\<exists>rest. split_on_acc sep cur xs = (cur @ takeWhile (\<lambda>c. c \<noteq> sep) xs) # rest"
proof (induction xs arbitrary: cur)
  case Nil
  show ?case by simp
next
  case (Cons a xs)
  show ?case using Cons [of "cur @ [a]"] Cons [of "[]"] by auto
qed

lemma split_on_first: "py_nth (split_on sep s) 0 = Inr (takeWhile (\<lambda>c. c \<noteq> sep) s)"
  using split_on_acc_first [of sep "[]" s] by (auto simp: split_on_def)

text \<open>
  Claim C7, amended. \<^verbatim>\<open>get_cow_used()\<close> returns 0 without running a command when the
  snapshot is not created. Otherwise it runs \<^verbatim>\<open>dmsetup status\<close>, takes the fourth
  whitespace-separated token of the output, and reads the part of it before the first
  \<^verbatim>\<open>/\<close> as a decimal integer \<open>used\<close>: the result is \<open>used * 512\<close>, and when that part
  is not an integer literal a snapshot error is raised. What follows the \<^verbatim>\<open>/\<close> is not
  looked at. (An output with fewer than four tokens is not covered by this statement.)
\<close>

theorem get_cow_used_parse:
  "(\<not> created s \<longrightarrow> get_cow_used s w = (Inr 0, w))
   \<and> (created s \<and> name s = Some nm \<and> py_nth (py_split (out (next_reply w))) 3 = Inr tok
        \<and> py_int (takeWhile (\<lambda>c. c \<noteq> CHR ''/'') tok) = Some used \<longrightarrow>
        get_cow_used s w = (Inr (used * 512), advance (Exec [''/sbin/dmsetup'', ''status'', nm]) w))
   \<and> (created s \<and> name s = Some nm \<and> py_nth (py_split (out (next_reply w))) 3 = Inr tok
        \<and> py_int (takeWhile (\<lambda>c. c \<noteq> CHR ''/'') tok) = None \<longrightarrow>
        (\<exists>msg. get_cow_used s w
           = (Inl (SnapshotError msg), advance (Exec [''/sbin/dmsetup'', ''status'', nm]) w)))"
  by (simp add: get_cow_used_def env_call_def split_on_first)

lemma status_line_tokens:
  "py_split ''0 8388608 snapshot 416/1048576'' = [''0'', ''8388608'', ''snapshot'', ''416/1048576'']"
  by (simp add: py_split_def isspace_def)

lemma py_int_416: "py_int ''416'' = Some 416"
  by (simp add: py_int_def isspace_def isdigit_def digits_val_def Let_def)

theorem get_cow_used_parse_witness:
  "get_cow_used (example_snapshot\<lparr>created := False\<rparr>) (fresh_world []) = (Inr 0, fresh_world [])
   \<and> get_cow_used example_snapshot (fresh_world [stdout_of ''0 8388608 snapshot 416/1048576''])
       = (Inr 212992,
          \<lparr>replies = [],
           trace = [(Exec [''/sbin/dmsetup'', ''status'', ''imgcreate-7-9''],
                     stdout_of ''0 8388608 snapshot 416/1048576'')]\<rparr>)
   \<and> (\<exists>msg. get_cow_used example_snapshot (fresh_world [stdout_of ''0 8388608 snapshot x/1048576''])
       = (Inl (SnapshotError msg),
          \<lparr>replies = [],
           trace = [(Exec [''/sbin/dmsetup'', ''status'', ''imgcreate-7-9''],
                     stdout_of ''0 8388608 snapshot x/1048576'')]\<rparr>))"
  using get_cow_used_parse [of "example_snapshot\<lparr>created := False\<rparr>" "fresh_world []"]
        get_cow_used_parse [of example_snapshot
          "fresh_world [stdout_of ''0 8388608 snapshot 416/1048576'']"
          "''imgcreate-7-9''" "''416/1048576''" 416]
        get_cow_used_parse [of example_snapshot
          "fresh_world [stdout_of ''0 8388608 snapshot x/1048576'']"
          "''imgcreate-7-9''" "''x/1048576''"]
        status_line_tokens py_int_416
  by (simp add: example_snapshot_def fresh_world_def stdout_of_def next_reply_def advance_def
        py_split_def isspace_def py_int_def isdigit_def digits_val_def Let_def numeral_3_eq_3)

text \<open>
  Claim C7 as stated fails: the status output \<^verbatim>\<open>0 8388608 snapshot 416\<close>, whose fourth
  token is not of the form used/total, raises nothing and yields \<open>416 * 512\<close>.
\<close>

theorem get_cow_used_no_slash_counterexample:
  "fst (get_cow_used example_snapshot (fresh_world [stdout_of ''0 8388608 snapshot 416'']))
     = Inr 212992"
  by (simp add: get_cow_used_def example_snapshot_def fresh_world_def stdout_of_def
        env_call_def next_reply_def py_split_def split_on_def isspace_def py_int_def isdigit_def
        digits_val_def Let_def numeral_3_eq_3)

subsection \<open>\<^verbatim>\<open>DeviceMapperSnapshot.create\<close>\<close>

lemma LoopbackDisk_create_error:
  "LoopbackDisk_create d w = (Inl e, d', w') \<Longrightarrow> d' = d \<and> \<not> is_snapshot_error e"
  by (auto simp: LoopbackDisk_create_def env_call_def Let_def
        split: if_splits sum.splits list.splits elim: py_nth.elims)

lemma expand_error:
  "SparseLoopbackDisk_expand d c sz w = (Inl e, w') \<Longrightarrow> \<not> is_snapshot_error e"
  by (auto simp: SparseLoopbackDisk_expand_def makedirs_def env_call_def Let_def
        split: if_splits sum.splits disk_kind.splits option.splits prod.splits)

lemma Disk_create_error:
  "Disk_create d w = (Inl e, d', w') \<Longrightarrow> d' = d \<and> \<not> is_snapshot_error e"
  by (cases "kind d")
     (auto simp: Disk_create_def SparseLoopbackDisk_create_def
        split: prod.splits sum.splits dest: LoopbackDisk_create_error expand_error)

lemma create_img_fails:
  assumes "\<not> created s" and "Disk_create (imgloop s) w = (Inl e, d, w1)"
  shows "create s w = (Inl e, s\<lparr>imgloop := d\<rparr>, w1)"
  using assms by (simp add: create_def)

lemma create_cow_fails:
  assumes "\<not> created s" and "Disk_create (imgloop s) w = (Inr (), d1, w1)"
    and "Disk_create (cowloop s) w1 = (Inl e, d2, w2)"
  shows "create s w = (Inl e, s\<lparr>imgloop := d1, cowloop := d2\<rparr>, w2)"
  using assms by (simp add: create_def)

lemma create_dmsetup_fails:
  assumes "\<not> created s" and "Disk_create (imgloop s) w = (Inr (), d1, w1)"
    and "Disk_create (cowloop s) w1 = (Inr (), d2, w2)" and "kind d1 \<noteq> Raw"
    and "replies w2 = p # q # st # r # rest" and "rc st = 0" and "rc r \<noteq> 0"
  shows "\<exists>msg s' w'. create s w = (Inl (SnapshotError msg), s', w') \<and> \<not> created s'
           \<and> \<not> bound_loop (imgloop s') \<and> \<not> bound_loop (cowloop s')"
proof -
  let ?nm = "''imgcreate-'' @ str_int (num p) @ ''-'' @ str_int (num q)"
  let ?table = "''0 '' @ str_int (num st div 512) @ '' snapshot '' @ str_opt (device d1)
                  @ '' '' @ str_opt (device d2) @ '' p 8''"
  let ?w6 = "advance (Exec [''/sbin/dmsetup'', ''create'', ?nm, ''--table'', ?table])
               (advance (Stat (lofile d1)) (advance Randint (advance Getpid w2)))"
  obtain c2 w7 where c2: "Disk_cleanup d2 ?w6 = (Inr (), c2, w7)" "\<not> bound_loop c2"
    using Disk_cleanup_result by blast
  obtain c1 w8 where c1: "Disk_cleanup d1 w7 = (Inr (), c1, w8)" "\<not> bound_loop c1"
    using Disk_cleanup_result by blast
  have l: "get_lofile d1 = Inr (lofile d1)"
    using assms(4) by (cases "kind d1") (simp_all add: get_lofile_def)
  show ?thesis
    using assms c1 c2 l
    by (simp add: create_def env_call_def next_reply_def advance_def Let_def)
qed

lemma create_failure_not_created:
  assumes "\<not> created s" and "create s w = (Inl e, s', w')"
  shows "\<not> created s'"
  using assms
  by (auto simp: create_def env_call_def Let_def
        split: prod.splits sum.splits if_splits)

lemma create_snapshot_error_cleaned:
  assumes "\<not> created s" and "create s w = (Inl e, s', w')" and "is_snapshot_error e"
  shows "\<not> bound_loop (imgloop s') \<and> \<not> bound_loop (cowloop s')"
proof -
  have "\<And>d v. \<not> bound_loop (fst (snd (Disk_cleanup d v)))"
    using Disk_cleanup_result by (metis fst_conv snd_conv)
  then have c: "\<And>d v r d' v'. Disk_cleanup d v = (r, d', v') \<Longrightarrow> \<not> bound_loop d'"
    by (metis fst_conv snd_conv)
  show ?thesis
    using assms
    by (auto simp: create_def env_call_def Let_def get_lofile_def
        split: prod.splits sum.splits if_splits disk_kind.splits
        dest: Disk_create_error c)
qed

text \<open>
  Claim C2, amended. Every failure inside \<^verbatim>\<open>create()\<close> leaves the created flag false.
  When the \<^verbatim>\<open>dmsetup create\<close> command fails (both disks were created, the image file
  could be inspected), both backing disks are cleaned up, so that no loop device stays
  bound, and a snapshot error is raised; no snapshot error is raised without this cleanup.
  When creating one of the backing disks fails, the error of that disk propagates as it is;
  it is not a snapshot error. (Whether a name is retained after a failure, and whether the
  image disk is released when creating the COW disk fails, is not part of this statement.)
\<close>

theorem create_failure_outcomes:
  "(\<not> created s \<and> create s w = (Inl e, s', w') \<longrightarrow>
       \<not> created s'
       \<and> (is_snapshot_error e \<longrightarrow> \<not> bound_loop (imgloop s') \<and> \<not> bound_loop (cowloop s')))
   \<and> (\<not> created s \<and> Disk_create (imgloop s) w = (Inr (), d1, w1)
       \<and> Disk_create (cowloop s) w1 = (Inr (), d2, w2) \<and> kind d1 \<noteq> Raw
       \<and> replies w2 = p # q # st # r # rest \<and> rc st = 0 \<and> rc r \<noteq> 0 \<longrightarrow>
       (\<exists>msg t v. create s w = (Inl (SnapshotError msg), t, v) \<and> \<not> created t
           \<and> \<not> bound_loop (imgloop t) \<and> \<not> bound_loop (cowloop t)))
   \<and> (\<not> created s \<and> Disk_create (imgloop s) w = (Inl e, d1, w1) \<longrightarrow>
       create s w = (Inl e, s\<lparr>imgloop := d1\<rparr>, w1) \<and> \<not> is_snapshot_error e)
   \<and> (\<not> created s \<and> Disk_create (imgloop s) w = (Inr (), d1, w1)
       \<and> Disk_create (cowloop s) w1 = (Inl e, d2, w2) \<longrightarrow>
       create s w = (Inl e, s\<lparr>imgloop := d1, cowloop := d2\<rparr>, w2) \<and> \<not> is_snapshot_error e)"
proof (intro conjI impI)
  assume "\<not> created s \<and> create s w = (Inl e, s', w')"
  then show "\<not> created s'" using create_failure_not_created by blast
next
  assume "\<not> created s \<and> create s w = (Inl e, s', w')" and "is_snapshot_error e"
  then show "\<not> bound_loop (imgloop s')" and "\<not> bound_loop (cowloop s')"
    using create_snapshot_error_cleaned by blast+
next
  assume "\<not> created s \<and> Disk_create (imgloop s) w = (Inr (), d1, w1)
       \<and> Disk_create (cowloop s) w1 = (Inr (), d2, w2) \<and> kind d1 \<noteq> Raw
       \<and> replies w2 = p # q # st # r # rest \<and> rc st = 0 \<and> rc r \<noteq> 0"
  then show "\<exists>msg t v. create s w = (Inl (SnapshotError msg), t, v) \<and> \<not> created t
           \<and> \<not> bound_loop (imgloop t) \<and> \<not> bound_loop (cowloop t)"
    using create_dmsetup_fails [of s w d1 w1 d2 w2 p q st r rest] by blast
next
  assume a: "\<not> created s \<and> Disk_create (imgloop s) w = (Inl e, d1, w1)"
  then show "create s w = (Inl e, s\<lparr>imgloop := d1\<rparr>, w1)" using create_img_fails by blast
  from a show "\<not> is_snapshot_error e" using Disk_create_error by blast
next
  assume a: "\<not> created s \<and> Disk_create (imgloop s) w = (Inr (), d1, w1)
       \<and> Disk_create (cowloop s) w1 = (Inl e, d2, w2)"
  then show "create s w = (Inl e, s\<lparr>imgloop := d1, cowloop := d2\<rparr>, w2)"
    using create_cow_fails by blast
  from a show "\<not> is_snapshot_error e" using Disk_create_error by blast
qed

lemma fresh_img_create:
  "Disk_create (imgloop fresh_snapshot) (fresh_world (loops_ok @ [exit_status 1]))
     = (Inr (), (imgloop fresh_snapshot)\<lparr>device := Some ''/dev/loop0''\<rparr>,
        \<lparr>replies = drop 2 loops_ok @ [exit_status 1],
         trace = [(Exec [''/sbin/losetup'', ''-f''], stdout_of ''/dev/loop0''),
                  (Exec [''/sbin/losetup'', ''/dev/loop0'', ''fs.img''], exit_status 0)]\<rparr>)"
  by (simp add: fresh_snapshot_def DeviceMapperSnapshot_init_def LoopbackDisk_init_def
        Disk_create_def LoopbackDisk_create_def env_call_def next_reply_def advance_def
        fresh_world_def loops_ok_def stdout_of_def exit_status_def py_split_def isspace_def)

lemma fresh_cow_create:
  "Disk_create (cowloop fresh_snapshot)
     \<lparr>replies = drop 2 loops_ok @ [exit_status 1],
      trace = [(Exec [''/sbin/losetup'', ''-f''], stdout_of ''/dev/loop0''),
               (Exec [''/sbin/losetup'', ''/dev/loop0'', ''fs.img''], exit_status 0)]\<rparr>
     = (Inr (), (cowloop fresh_snapshot)\<lparr>device := Some ''/dev/loop1''\<rparr>,
        \<lparr>replies = [number 7, number 9, number 2048, exit_status 1],
         trace = [(Exec [''/sbin/losetup'', ''-f''], stdout_of ''/dev/loop0''),
                  (Exec [''/sbin/losetup'', ''/dev/loop0'', ''fs.img''], exit_status 0),
                  (Makedirs ''out'', exit_status 0),
                  (Extend ''out/osmin'' True 67108864, exit_status 0),
                  (Exec [''/sbin/losetup'', ''-f''], stdout_of ''/dev/loop1''),
                  (Exec [''/sbin/losetup'', ''/dev/loop1'', ''out/osmin''], exit_status 0)]\<rparr>)"
  by (simp add: fresh_snapshot_def DeviceMapperSnapshot_init_def SparseLoopbackDisk_init_def
        Disk_create_def SparseLoopbackDisk_create_def SparseLoopbackDisk_expand_def
        makedirs_def dirname_def EEXIST_def
        LoopbackDisk_create_def env_call_def next_reply_def advance_def
        loops_ok_def stdout_of_def exit_status_def number_def py_split_def isspace_def)

theorem create_failure_outcomes_witness:
  "(\<exists>msg t v. create fresh_snapshot (fresh_world (loops_ok @ [exit_status 1]))
        = (Inl (SnapshotError msg), t, v) \<and> \<not> created t
        \<and> \<not> bound_loop (imgloop t) \<and> \<not> bound_loop (cowloop t))
   \<and> (\<exists>msg. create fresh_snapshot (fresh_world [exit_status 1])
        = (Inl (MountError msg), fresh_snapshot,
           \<lparr>replies = [], trace = [(Exec [''/sbin/losetup'', ''-f''], exit_status 1)]\<rparr>))"
proof -
  have img_fail:
    "Disk_create (imgloop fresh_snapshot) (fresh_world [exit_status 1])
       = (Inl (MountError (''Failed to allocate loop device for '' @ [CHR 0x27] @ ''fs.img''
              @ [CHR 0x27])), imgloop fresh_snapshot,
          \<lparr>replies = [], trace = [(Exec [''/sbin/losetup'', ''-f''], exit_status 1)]\<rparr>)"
    by (simp add: fresh_snapshot_def DeviceMapperSnapshot_init_def LoopbackDisk_init_def
        Disk_create_def LoopbackDisk_create_def env_call_def next_reply_def advance_def
        fresh_world_def exit_status_def)
  have nc: "\<not> created fresh_snapshot"
    by (simp add: fresh_snapshot_def DeviceMapperSnapshot_init_def)
  have k: "kind ((imgloop fresh_snapshot)\<lparr>device := Some ''/dev/loop0''\<rparr>) \<noteq> Raw"
    by (simp add: fresh_snapshot_def DeviceMapperSnapshot_init_def LoopbackDisk_init_def)
  have rs: "replies \<lparr>replies = [number 7, number 9, number 2048, exit_status 1],
         trace = [(Exec [''/sbin/losetup'', ''-f''], stdout_of ''/dev/loop0''),
                  (Exec [''/sbin/losetup'', ''/dev/loop0'', ''fs.img''], exit_status 0),
                  (Makedirs ''out'', exit_status 0),
                  (Extend ''out/osmin'' True 67108864, exit_status 0),
                  (Exec [''/sbin/losetup'', ''-f''], stdout_of ''/dev/loop1''),
                  (Exec [''/sbin/losetup'', ''/dev/loop1'', ''out/osmin''], exit_status 0)]\<rparr>
        = number 7 # number 9 # number 2048 # exit_status 1 # []"
    by simp
  have r0: "rc (number 2048) = 0" and r1: "rc (exit_status 1) \<noteq> 0"
    by (simp_all add: number_def exit_status_def)
  have self: "fresh_snapshot\<lparr>imgloop := imgloop fresh_snapshot\<rparr> = fresh_snapshot"
    by simp
  from create_failure_outcomes
         [where s = fresh_snapshot and w = "fresh_world (loops_ok @ [exit_status 1])"
            and ?d1.0 = "(imgloop fresh_snapshot)\<lparr>device := Some ''/dev/loop0''\<rparr>"
            and ?d2.0 = "(cowloop fresh_snapshot)\<lparr>device := Some ''/dev/loop1''\<rparr>"
            and p = "number 7" and q = "number 9" and st = "number 2048"
            and r = "exit_status 1" and rest = "[]"]
       nc fresh_img_create fresh_cow_create k rs r0 r1
  have first: "\<exists>msg t v. create fresh_snapshot (fresh_world (loops_ok @ [exit_status 1]))
        = (Inl (SnapshotError msg), t, v) \<and> \<not> created t
        \<and> \<not> bound_loop (imgloop t) \<and> \<not> bound_loop (cowloop t)"
    by blast
  from create_failure_outcomes
         [where s = fresh_snapshot and w = "fresh_world [exit_status 1]"
            and ?d1.0 = "imgloop fresh_snapshot"
            and e = "MountError (''Failed to allocate loop device for '' @ [CHR 0x27]
                       @ ''fs.img'' @ [CHR 0x27])"]
       nc img_fail self
  have second: "\<exists>msg. create fresh_snapshot (fresh_world [exit_status 1])
        = (Inl (MountError msg), fresh_snapshot,
           \<lparr>replies = [], trace = [(Exec [''/sbin/losetup'', ''-f''], exit_status 1)]\<rparr>)"
    by auto
  from first second show ?thesis by blast
qed

text \<open>
  Claim C2 as stated fails: when \<^verbatim>\<open>losetup -f\<close> fails for the image disk, \<^verbatim>\<open>create()\<close>
  raises the mount error of \<^verbatim>\<open>LoopbackDisk.create\<close>, which is not a snapshot error.
\<close>

theorem create_loop_failure_counterexample:
  "raises_with is_mount_error (fst (create fresh_snapshot (fresh_world [exit_status 1])))
   \<and> \<not> raises_with is_snapshot_error (fst (create fresh_snapshot (fresh_world [exit_status 1])))"
  by (simp add: create_def fresh_snapshot_def DeviceMapperSnapshot_init_def LoopbackDisk_init_def
        Disk_create_def LoopbackDisk_create_def env_call_def next_reply_def advance_def
        fresh_world_def exit_status_def)

subsection \<open>The name of a snapshot and its created flag\<close>

text \<open>A created snapshot always has a name, hence a path: this half of the invariant holds.\<close>

lemma snapshot_ok_init: "snapshot_ok (DeviceMapperSnapshot_init img cow)"
  by (simp add: snapshot_ok_def DeviceMapperSnapshot_init_def)

lemma snapshot_ok_create:
  assumes "snapshot_ok s"
  shows "snapshot_ok (fst (snd (create s w)))"
proof (cases "created s")
  case True
  with assms show ?thesis by (simp add: create_def)
next
  case False
  then show ?thesis
    by (auto simp: create_def snapshot_ok_def env_call_def Let_def
          split: prod.splits sum.splits if_splits)
qed

lemma snapshot_ok_remove:
  assumes "snapshot_ok s"
  shows "snapshot_ok (fst (snd (remove s ig w)))"
  using assms
  by (auto simp: remove_def snapshot_ok_def env_call_def Let_def
        split: prod.splits option.splits if_splits)

lemma created_has_path: "snapshot_ok s \<Longrightarrow> created s \<Longrightarrow> get_path s \<noteq> None"
  by (auto simp: snapshot_ok_def get_path_def)

lemma fresh_create_dmsetup_fails:
  "create fresh_snapshot (fresh_world (loops_ok @ [exit_status 1]))
     = (Inl (SnapshotError (''Could not create snapshot device using: /sbin/dmsetup create ''
                @ ''imgcreate-7-9 --table 0 4 snapshot /dev/loop0 /dev/loop1 p 8'')),
        fresh_snapshot\<lparr>name := Some ''imgcreate-7-9''\<rparr>,
        \<lparr>replies = [],
         trace = [(Exec [''/sbin/losetup'', ''-f''], stdout_of ''/dev/loop0''),
                  (Exec [''/sbin/losetup'', ''/dev/loop0'', ''fs.img''], exit_status 0),
                  (Makedirs ''out'', exit_status 0),
                  (Extend ''out/osmin'' True 67108864, exit_status 0),
                  (Exec [''/sbin/losetup'', ''-f''], stdout_of ''/dev/loop1''),
                  (Exec [''/sbin/losetup'', ''/dev/loop1'', ''out/osmin''], exit_status 0),
                  (Getpid, number 7), (Randint, number 9), (Stat ''fs.img'', number 2048),
                  (Exec [''/sbin/dmsetup'', ''create'', ''imgcreate-7-9'', ''--table'',
                         ''0 4 snapshot /dev/loop0 /dev/loop1 p 8''], exit_status 1),
                  (Exec [''/sbin/losetup'', ''-d'', ''/dev/loop1''], ok_reply),
                  (Exec [''/sbin/losetup'', ''-d'', ''/dev/loop0''], ok_reply)]\<rparr>)"
proof -
  have nc: "\<not> created fresh_snapshot"
    by (simp add: fresh_snapshot_def DeviceMapperSnapshot_init_def)
  show ?thesis
    using nc
    by (simp add: create_def fresh_img_create fresh_cow_create)
       (simp add: fresh_snapshot_def DeviceMapperSnapshot_init_def LoopbackDisk_init_def
          SparseLoopbackDisk_init_def get_lofile_def env_call_def next_reply_def advance_def
          number_def exit_status_def str_int_def str_nat.simps Disk_cleanup_def
          LoopbackDisk_cleanup_def ok_reply_def stdout_of_def Let_def)
qed

text \<open>
  Claim C4 does not hold of the code: \<^verbatim>\<open>create()\<close> assigns the name before it runs
  \<^verbatim>\<open>dmsetup create\<close> and does not reset it when the command fails. After such a failed
  call on a new snapshot the created flag is false, yet \<^verbatim>\<open>path\<close> is defined.
\<close>

theorem failed_create_keeps_path:
  "raises_with is_snapshot_error
     (fst (create fresh_snapshot (fresh_world (loops_ok @ [exit_status 1]))))
   \<and> created (fst (snd (create fresh_snapshot (fresh_world (loops_ok @ [exit_status 1])))))
       = False
   \<and> get_path (fst (snd (create fresh_snapshot (fresh_world (loops_ok @ [exit_status 1])))))
       = Some ''/dev/mapper/imgcreate-7-9''"
  by (simp add: fresh_create_dmsetup_fails)
     (simp add: get_path_def path_join_def fresh_snapshot_def DeviceMapperSnapshot_init_def)

subsection \<open>Cleanup in \<^verbatim>\<open>create_image_minimizer\<close>\<close>

lemma create_success:
  assumes "\<not> created s" and "create s w = (Inr u, s1, w1)"
  shows "created s1 \<and> name s1 \<noteq> None"
  using assms
  by (auto simp: create_def env_call_def Let_def
        split: prod.splits sum.splits if_splits)

lemma minimizer_body_snapshot:
  assumes "create s0 w = (Inr u, s1, w1)"
  shows "\<exists>rb w2. minimizer_body s0 ms w = (rb, s1, w2)"
  using assms
  by (auto simp: minimizer_body_def split: prod.splits sum.splits)

text \<open>
  The part of the guarantee that does hold: once \<^verbatim>\<open>snapshot.create()\<close> has succeeded,
  \<^verbatim>\<open>create_image_minimizer\<close> ends with the snapshot removed and no loop device bound,
  whatever fails afterwards, unless it ends with the error of \<^verbatim>\<open>remove\<close> itself (which
  can only happen when the resize-and-measure step did not raise).
\<close>

lemma minimizer_releases_created_snapshot:
  assumes c: "create (DeviceMapperSnapshot_init (LoopbackDisk_init img None)
                (SparseLoopbackDisk_init (path_join (dirname path) ''osmin'')
                   (Some (64 * 1024 * 1024)))) w = (Inr u, s1, w1)"
    and m: "create_image_minimizer path img ms w = (r, s', w')"
    and r: "r \<noteq> Inl (SnapshotError ''Could not remove snapshot device'')"
  shows "\<not> created s' \<and> \<not> bound_loop (imgloop s') \<and> \<not> bound_loop (cowloop s')"
proof -
  let ?s0 = "DeviceMapperSnapshot_init (LoopbackDisk_init img None)
                (SparseLoopbackDisk_init (path_join (dirname path) ''osmin'')
                   (Some (64 * 1024 * 1024)))"
  have "\<not> created ?s0" by (simp add: DeviceMapperSnapshot_init_def)
  from create_success [OF this c] obtain nm where s1: "created s1" "name s1 = Some nm"
    by auto
  from minimizer_body_snapshot [OF c] obtain rb w2 where
    b: "minimizer_body ?s0 ms w = (rb, s1, w2)" by blast
  show ?thesis
  proof (cases "raises rb \<or> rc (next_reply w2) = 0")
    case True
    from remove_resets [OF s1 True] obtain s2 w3 where
      rm: "remove s1 (raises rb) w2 = (Inr (), s2, w3)" "\<not> created s2"
          "\<not> bound_loop (imgloop s2)" "\<not> bound_loop (cowloop s2)"
      by blast
    from m b rm have "s' = s2"
      by (auto simp: create_image_minimizer_def Let_def split: prod.splits sum.splits if_splits)
    with rm show ?thesis by simp
  next
    case False
    then have "\<not> raises rb" and "rc (next_reply w2) \<noteq> 0" by auto
    from remove_raises [OF s1 this] m b have
      "r = Inl (SnapshotError ''Could not remove snapshot device'')"
      by (auto simp: create_image_minimizer_def Let_def split: prod.splits sum.splits)
    with r show ?thesis by simp
  qed
qed

lemma minimizer_cow_loop_fails:
  "create_image_minimizer ''out/osmin.img'' ''fs.img'' (Some 1048576) (fresh_world cow_loop_fails)
     = (Inl (MountError (''Failed to allocate loop device for '' @ [CHR 0x27] @ ''out/osmin''
              @ [CHR 0x27])),
        fresh_snapshot\<lparr>imgloop := (imgloop fresh_snapshot)\<lparr>device := Some ''/dev/loop0''\<rparr>\<rparr>,
        \<lparr>replies = [],
         trace = [(Exec [''/sbin/losetup'', ''-f''], stdout_of ''/dev/loop0''),
                  (Exec [''/sbin/losetup'', ''/dev/loop0'', ''fs.img''], exit_status 0),
                  (Makedirs ''out'', exit_status 0),
                  (Extend ''out/osmin'' True 67108864, exit_status 0),
                  (Exec [''/sbin/losetup'', ''-f''], exit_status 1)]\<rparr>)"
  by (simp add: create_image_minimizer_def minimizer_body_def create_def remove_def
        fresh_snapshot_def DeviceMapperSnapshot_init_def LoopbackDisk_init_def
        SparseLoopbackDisk_init_def dirname_def path_join_def
        Disk_create_def LoopbackDisk_create_def SparseLoopbackDisk_create_def
        SparseLoopbackDisk_expand_def makedirs_def EEXIST_def
        env_call_def next_reply_def advance_def fresh_world_def cow_loop_fails_def
        stdout_of_def exit_status_def py_split_def isspace_def)

text \<open>
  Claim C1 does not hold of the code. The \<^verbatim>\<open>finally\<close> clause does call \<^verbatim>\<open>remove\<close>, with
  errors ignored exactly when the body raised, but \<^verbatim>\<open>remove\<close> does nothing for a snapshot
  that is not created. When the image loop device has been set up and creating the COW
  disk then fails inside \<^verbatim>\<open>create()\<close>, the mount error propagates out of
  \<^verbatim>\<open>create_image_minimizer\<close>, the image disk still holds \<^verbatim>\<open>/dev/loop0\<close> and no
  \<^verbatim>\<open>losetup -d\<close> was run.
\<close>

theorem minimizer_leaves_loop_bound:
  "raises_with is_mount_error
     (fst (create_image_minimizer ''out/osmin.img'' ''fs.img'' (Some 1048576)
        (fresh_world cow_loop_fails)))
   \<and> bound_loop (imgloop (fst (snd (create_image_minimizer ''out/osmin.img'' ''fs.img''
        (Some 1048576) (fresh_world cow_loop_fails)))))
   \<and> execs (snd (snd (create_image_minimizer ''out/osmin.img'' ''fs.img'' (Some 1048576)
        (fresh_world cow_loop_fails))))
      = [[''/sbin/losetup'', ''-f''], [''/sbin/losetup'', ''/dev/loop0'', ''fs.img''],
         [''/sbin/losetup'', ''-f'']]"
  by (simp add: minimizer_cow_loop_fails)
     (simp add: bound_loop_def execs_def fresh_snapshot_def DeviceMapperSnapshot_init_def
        LoopbackDisk_init_def)

subsection \<open>Repeated \<^verbatim>\<open>mount()\<close> and \<^verbatim>\<open>unmount()\<close>\<close>

lemma DiskMount_unmount_result:
  "DiskMount_unmount m w = (Inr u, m', w') \<Longrightarrow> \<not> mounted m'"
  by (auto simp: DiskMount_unmount_def env_call_def Let_def split: if_splits)

lemma DiskMount_cleanup_result:
  "DiskMount_cleanup m w = (Inr u, m', w') \<Longrightarrow> \<not> mounted m'"
  by (auto simp: DiskMount_cleanup_def split: prod.splits sum.splits
        dest: DiskMount_unmount_result)

text \<open>
  Claim C5, amended. For the bind mount and the generic disk mount, \<^verbatim>\<open>mount()\<close> on a
  mounted object changes nothing and touches nothing outside. For the bind mount,
  \<^verbatim>\<open>unmount()\<close> on an object that is not mounted does the same. For both disk mounts,
  \<^verbatim>\<open>unmount()\<close> on an object that is not mounted runs no external command; it changes
  nothing at all unless the object still owns its mount-point directory, in which case it
  removes that directory and gives up the ownership. \<^verbatim>\<open>cleanup()\<close> of a disk mount leaves
  the object not mounted whenever it returns normally. (\<^verbatim>\<open>mount()\<close> of the ext-aware
  mount on a mounted object is not part of this statement.)
\<close>

theorem mount_unmount_repeated:
  "(b_mounted b \<longrightarrow> BindChrootMount_mount b w = (Inr (), b, w))
   \<and> (\<not> b_mounted b \<longrightarrow> BindChrootMount_unmount b w = (Inr (), b, w))
   \<and> (mkind m = GenericDisk \<and> mounted m \<longrightarrow> Mount_mount m w = (Inr (), m, w))
   \<and> (\<not> mounted m \<and> \<not> rmdir m \<longrightarrow> Mount_unmount m w = (Inr (), m, w))
   \<and> (\<not> mounted m \<and> rmdir m \<longrightarrow>
        Mount_unmount m w = (Inr (), m\<lparr>rmdir := False\<rparr>, advance (Rmdir (mountdir m)) w))
   \<and> (\<not> mounted m \<longrightarrow> execs (snd (snd (Mount_unmount m w))) = execs w)
   \<and> (Mount_cleanup m w = (Inr u, m', w') \<longrightarrow> \<not> mounted m')"
proof (intro conjI impI)
  show "b_mounted b \<Longrightarrow> BindChrootMount_mount b w = (Inr (), b, w)"
    by (simp add: BindChrootMount_mount_def)
  show "\<not> b_mounted b \<Longrightarrow> BindChrootMount_unmount b w = (Inr (), b, w)"
    by (simp add: BindChrootMount_unmount_def)
  show "mkind m = GenericDisk \<and> mounted m \<Longrightarrow> Mount_mount m w = (Inr (), m, w)"
    by (simp add: Mount_mount_def DiskMount_mount_def)
  show "\<not> mounted m \<and> \<not> rmdir m \<Longrightarrow> Mount_unmount m w = (Inr (), m, w)"
    by (simp add: Mount_unmount_def DiskMount_unmount_def)
  show "\<not> mounted m \<and> rmdir m \<Longrightarrow>
        Mount_unmount m w = (Inr (), m\<lparr>rmdir := False\<rparr>, advance (Rmdir (mountdir m)) w)"
    by (simp add: Mount_unmount_def DiskMount_unmount_def env_call_def)
  show "\<not> mounted m \<Longrightarrow> execs (snd (snd (Mount_unmount m w))) = execs w"
    by (simp add: Mount_unmount_def DiskMount_unmount_def env_call_def execs_advance)
  show "Mount_cleanup m w = (Inr u, m', w') \<Longrightarrow> \<not> mounted m'"
    using DiskMount_cleanup_result by (simp add: Mount_cleanup_def)
qed

theorem mount_unmount_repeated_witness:
  "BindChrootMount_mount example_bind (fresh_world []) = (Inr (), example_bind, fresh_world [])
   \<and> BindChrootMount_unmount (example_bind\<lparr>b_mounted := False\<rparr>) (fresh_world [])
       = (Inr (), example_bind\<lparr>b_mounted := False\<rparr>, fresh_world [])
   \<and> Mount_mount example_mount (fresh_world []) = (Inr (), example_mount, fresh_world [])
   \<and> Mount_unmount (example_mount\<lparr>mounted := False, rmdir := False\<rparr>) (fresh_world [])
       = (Inr (), example_mount\<lparr>mounted := False, rmdir := False\<rparr>, fresh_world [])
   \<and> Mount_unmount (example_mount\<lparr>mounted := False\<rparr>) (fresh_world [])
       = (Inr (), example_mount\<lparr>mounted := False, rmdir := False\<rparr>,
          \<lparr>replies = [], trace = [(Rmdir ''/mnt/img'', ok_reply)]\<rparr>)
   \<and> execs (snd (snd (Mount_unmount (example_mount\<lparr>mounted := False\<rparr>) (fresh_world [])))) = []
   \<and> Mount_cleanup example_mount (fresh_world [])
       = (Inr (), fst (snd (Mount_cleanup example_mount (fresh_world []))),
          snd (snd (Mount_cleanup example_mount (fresh_world []))))
   \<and> \<not> mounted (fst (snd (Mount_cleanup example_mount (fresh_world []))))"
proof -
  have c: "Mount_cleanup example_mount (fresh_world [])
       = (Inr (), fst (snd (Mount_cleanup example_mount (fresh_world []))),
          snd (snd (Mount_cleanup example_mount (fresh_world []))))"
    by (simp add: Mount_cleanup_def DiskMount_cleanup_def DiskMount_unmount_def
          Disk_cleanup_def LoopbackDisk_cleanup_def example_mount_def env_call_def
          next_reply_def ok_reply_def fresh_world_def)
  show ?thesis
    using c
      mount_unmount_repeated [of example_bind "fresh_world []" example_mount "()"
         "fst (snd (Mount_cleanup example_mount (fresh_world [])))"
         "snd (snd (Mount_cleanup example_mount (fresh_world [])))"]
      mount_unmount_repeated [of "example_bind\<lparr>b_mounted := False\<rparr>" "fresh_world []"
         "example_mount\<lparr>mounted := False, rmdir := False\<rparr>"]
      mount_unmount_repeated [of example_bind "fresh_world []"
         "example_mount\<lparr>mounted := False\<rparr>"]
    by (simp add: example_bind_def example_mount_def fresh_world_def advance_def
          next_reply_def execs_def)
qed

text \<open>
  Claim C5 as stated fails. \<^verbatim>\<open>cleanup()\<close> on a mounted disk mount whose \<^verbatim>\<open>umount\<close>
  fails raises and leaves the object mounted. \<^verbatim>\<open>unmount()\<close> on a disk mount that is not
  mounted but still owns its mount-point directory is not the same as doing nothing: it
  removes the directory.
\<close>

theorem cleanup_may_stay_mounted_counterexample:
  "raises (fst (Mount_cleanup example_mount (fresh_world [exit_status 32])))
   \<and> mounted (fst (snd (Mount_cleanup example_mount (fresh_world [exit_status 32]))))
   \<and> trace (snd (snd (Mount_unmount (example_mount\<lparr>mounted := False\<rparr>) (fresh_world []))))
        = [(Rmdir ''/mnt/img'', ok_reply)]"
  by (simp add: Mount_cleanup_def DiskMount_cleanup_def Mount_unmount_def DiskMount_unmount_def
        example_mount_def env_call_def next_reply_def advance_def fresh_world_def
        exit_status_def)

text \<open>
  The ext-aware \<^verbatim>\<open>mount()\<close> runs its create step before it looks at the mounted flag:
  on a mounted object over a raw device it formats the device again.
\<close>

lemma ext_mount_while_mounted:
  "Mount_mount example_ext_mount (fresh_world [])
     = (Inr (), example_ext_mount,
        \<lparr>replies = [],
         trace = [(Exec [''/sbin/mkfs.ext3'', ''-F'', ''-L'', ''root'', ''-m'', ''1'', ''-b'',
                         ''4096'', ''/dev/sdb1''], ok_reply),
                  (Exec [''/sbin/tune2fs'', ''-c0'', ''-i0'', ''-Odir_index'',
                         ''-ouser_xattr,acl'', ''/dev/sdb1''], ok_reply)]\<rparr>)"
  by (simp add: Mount_mount_def ExtDiskMount_mount_def ExtDiskMount_create_def
        DiskMount_mount_def format_filesystem_def Disk_create_def fixed_def
        example_ext_mount_def ExtDiskMount_init_def RawDisk_init_def
        env_call_def next_reply_def advance_def fresh_world_def str_int_def str_nat.simps)

subsection \<open>Which exit statuses are fatal\<close>

lemma mksquashfs_fails:
  "replies w = k # r # rest \<Longrightarrow> rc r \<noteq> 0 \<Longrightarrow>
     \<exists>msg. fst (mksquashfs inp outp w) = Inl (SquashfsError msg)"
  by (simp add: mksquashfs_def env_call_def next_reply_def advance_def Let_def)

lemma bind_mount_fails:
  "\<not> b_mounted b \<Longrightarrow> replies w = k # r # rest \<Longrightarrow> rc k = 0 \<Longrightarrow> rc r \<noteq> 0 \<Longrightarrow>
     raises_with is_mount_error (fst (BindChrootMount_mount b w))"
  by (simp add: BindChrootMount_mount_def makedirs_def env_call_def next_reply_def advance_def)

lemma bind_unmount_fails:
  "b_mounted b \<Longrightarrow> rc (next_reply w) \<noteq> 0 \<Longrightarrow>
     raises_with is_mount_error (fst (BindChrootMount_unmount b w))"
  by (simp add: BindChrootMount_unmount_def env_call_def)

lemma losetup_find_fails:
  "device d = None \<Longrightarrow> rc (next_reply w) \<noteq> 0 \<Longrightarrow>
     raises_with is_mount_error (fst (LoopbackDisk_create d w))"
  by (simp add: LoopbackDisk_create_def env_call_def)

lemma losetup_bind_fails:
  "device d = None \<Longrightarrow> replies w = k # r # rest \<Longrightarrow> rc k = 0 \<Longrightarrow>
     py_split (out k) = dev # toks \<Longrightarrow> rc r \<noteq> 0 \<Longrightarrow>
     raises_with is_mount_error (fst (LoopbackDisk_create d w))"
  by (simp add: LoopbackDisk_create_def env_call_def next_reply_def advance_def)

lemma disk_unmount_fails:
  "mounted m \<Longrightarrow> rc (next_reply w) \<noteq> 0 \<Longrightarrow>
     raises_with is_mount_error (fst (DiskMount_unmount m w))"
  by (simp add: DiskMount_unmount_def env_call_def)

lemma disk_mount_fails:
  "\<not> mounted m \<Longrightarrow> flag (next_reply w) \<Longrightarrow>
     Disk_create (disk m) (advance (IsDir (mountdir m)) w) = (Inr (), d, v) \<Longrightarrow>
     device d = Some dev \<Longrightarrow> rc (next_reply v) \<noteq> 0 \<Longrightarrow>
     raises_with is_mount_error (fst (DiskMount_mount m w))"
  by (simp add: DiskMount_mount_def DiskMount_create_def env_call_def Let_def)

lemma mkfs_fails:
  "fstype m = Some t \<Longrightarrow> device (disk m) = Some dev \<Longrightarrow> rc (next_reply w) \<noteq> 0 \<Longrightarrow>
     raises_with is_mount_error (fst (format_filesystem m w))"
  by (simp add: format_filesystem_def env_call_def)

lemma tune2fs_ignored:
  "fstype m = Some t \<Longrightarrow> device (disk m) = Some dev \<Longrightarrow> rc (next_reply w) = 0 \<Longrightarrow>
     fst (format_filesystem m w) = Inr ()"
  by (simp add: format_filesystem_def env_call_def Let_def split: prod.splits)

lemma resize_tool_status_returned:
  "(minimal \<and> sz = None) \<or> (\<not> minimal \<and> sz \<noteq> None) \<Longrightarrow>
     replies w = c0 # t # i # r # rest \<Longrightarrow> rc t = 0 \<Longrightarrow> rc r \<noteq> 0 \<Longrightarrow>
     fst (resize2fs (Some f) sz minimal w) = Inr (rc r)"
  by (auto simp: resize2fs_def e2fsck_def env_call_def next_reply_def advance_def Let_def)

lemma fsck_after_resize_fails:
  "(minimal \<and> sz = None) \<or> (\<not> minimal \<and> sz \<noteq> None) \<Longrightarrow>
     replies w = c0 # t # i # r # c # rest \<Longrightarrow> rc t = 0 \<Longrightarrow> rc r = 0 \<Longrightarrow> rc c \<noteq> 0 \<Longrightarrow>
     \<exists>msg. fst (resize2fs (Some f) sz minimal w) = Inl (CreatorError msg)"
  by (auto simp: resize2fs_def e2fsck_def env_call_def next_reply_def advance_def Let_def)

lemma losetup_detach_ignored: "\<not> raises (fst (LoopbackDisk_cleanup d w))"
  by (simp add: LoopbackDisk_cleanup_def env_call_def split: option.splits)

text \<open>
  Claim C9, amended. A nonzero exit status makes the invoking operation raise for these
  commands: \<^verbatim>\<open>mksquashfs\<close> (squashfs error); \<^verbatim>\<open>mount --bind\<close>, \<^verbatim>\<open>umount\<close>,
  \<^verbatim>\<open>losetup -f\<close>, \<^verbatim>\<open>losetup DEVICE FILE\<close>, \<^verbatim>\<open>mount\<close> and \<^verbatim>\<open>mkfs\<close> (mount error);
  \<^verbatim>\<open>dmsetup create\<close>, and \<^verbatim>\<open>dmsetup remove\<close> when errors are not ignored (snapshot
  error); the filesystem check after a successful resize (creator error). It does not for
  the resize tool, whose status \<^verbatim>\<open>resize2fs\<close> returns to its caller, nor for the
  filesystem check before the resize, \<^verbatim>\<open>e2image\<close>, \<^verbatim>\<open>tune2fs\<close> and \<^verbatim>\<open>losetup -d\<close>,
  whose status is ignored. In the hypotheses, \<open>replies w = k # r # rest\<close> names the answers
  to the first and second interaction of the operation.
\<close>

theorem fatal_exit_statuses:
  "(replies wb = k # r # rest \<and> rc r \<noteq> 0 \<longrightarrow>
       (\<exists>msg. fst (mksquashfs inp outp wb) = Inl (SquashfsError msg)))
   \<and> (\<not> b_mounted b \<and> replies wb = k # r # rest \<and> rc k = 0 \<and> rc r \<noteq> 0 \<longrightarrow>
       raises_with is_mount_error (fst (BindChrootMount_mount b wb)))
   \<and> (b_mounted b' \<and> rc (next_reply wa) \<noteq> 0 \<longrightarrow>
       raises_with is_mount_error (fst (BindChrootMount_unmount b' wa)))
   \<and> (device d = None \<and> rc (next_reply wa) \<noteq> 0 \<longrightarrow>
       raises_with is_mount_error (fst (LoopbackDisk_create d wa)))
   \<and> (device d = None \<and> replies wb = k # r # rest \<and> rc k = 0
       \<and> py_split (out k) = dev # toks \<and> rc r \<noteq> 0 \<longrightarrow>
       raises_with is_mount_error (fst (LoopbackDisk_create d wb)))
   \<and> (mounted m' \<and> rc (next_reply wa) \<noteq> 0 \<longrightarrow>
       raises_with is_mount_error (fst (DiskMount_unmount m' wa)))
   \<and> (\<not> mounted m \<and> flag (next_reply wb)
       \<and> Disk_create (disk m) (advance (IsDir (mountdir m)) wb) = (Inr (), dm, vm)
       \<and> device dm = Some devm \<and> rc (next_reply vm) \<noteq> 0 \<longrightarrow>
       raises_with is_mount_error (fst (DiskMount_mount m wb)))
   \<and> (fstype m = Some t \<and> device (disk m) = Some devf \<and> rc (next_reply wa) \<noteq> 0 \<longrightarrow>
       raises_with is_mount_error (fst (format_filesystem m wa)))
   \<and> (\<not> created s \<and> Disk_create (imgloop s) we = (Inr (), d1, w1)
       \<and> Disk_create (cowloop s) w1 = (Inr (), d2, w2) \<and> kind d1 \<noteq> Raw
       \<and> replies w2 = p # q # st # rd # rest2 \<and> rc st = 0 \<and> rc rd \<noteq> 0 \<longrightarrow>
       raises_with is_snapshot_error (fst (create s we)))
   \<and> (created s' \<and> name s' = Some nm \<and> rc (next_reply wa) \<noteq> 0 \<longrightarrow>
       raises_with is_snapshot_error (fst (remove s' False wa)))
   \<and> (((minimal \<and> sz = None) \<or> (\<not> minimal \<and> sz \<noteq> None))
       \<and> replies wd = c0 # tm # im # rz # c # rest4 \<and> rc tm = 0 \<and> rc rz = 0 \<and> rc c \<noteq> 0 \<longrightarrow>
       (\<exists>msg. fst (resize2fs (Some f) sz minimal wd) = Inl (CreatorError msg)))
   \<and> (((minimal \<and> sz = None) \<or> (\<not> minimal \<and> sz \<noteq> None))
       \<and> replies wc = c0' # tm' # im' # rz' # rest3 \<and> rc tm' = 0 \<and> rc rz' \<noteq> 0 \<longrightarrow>
       fst (resize2fs (Some f) sz minimal wc) = Inr (rc rz'))
   \<and> (fstype m = Some t \<and> device (disk m) = Some devf \<and> rc (next_reply wt) = 0 \<longrightarrow>
       fst (format_filesystem m wt) = Inr ())
   \<and> \<not> raises (fst (LoopbackDisk_cleanup d wa))"
proof (intro conjI impI)
  show "replies wb = k # r # rest \<and> rc r \<noteq> 0 \<Longrightarrow>
       \<exists>msg. fst (mksquashfs inp outp wb) = Inl (SquashfsError msg)"
    using mksquashfs_fails by blast
  show "\<not> b_mounted b \<and> replies wb = k # r # rest \<and> rc k = 0 \<and> rc r \<noteq> 0 \<Longrightarrow>
       raises_with is_mount_error (fst (BindChrootMount_mount b wb))"
    using bind_mount_fails by blast
  show "b_mounted b' \<and> rc (next_reply wa) \<noteq> 0 \<Longrightarrow>
       raises_with is_mount_error (fst (BindChrootMount_unmount b' wa))"
    using bind_unmount_fails by blast
  show "device d = None \<and> rc (next_reply wa) \<noteq> 0 \<Longrightarrow>
       raises_with is_mount_error (fst (LoopbackDisk_create d wa))"
    using losetup_find_fails by blast
  show "device d = None \<and> replies wb = k # r # rest \<and> rc k = 0
       \<and> py_split (out k) = dev # toks \<and> rc r \<noteq> 0 \<Longrightarrow>
       raises_with is_mount_error (fst (LoopbackDisk_create d wb))"
    using losetup_bind_fails by blast
  show "mounted m' \<and> rc (next_reply wa) \<noteq> 0 \<Longrightarrow>
       raises_with is_mount_error (fst (DiskMount_unmount m' wa))"
    using disk_unmount_fails by blast
  show "\<not> mounted m \<and> flag (next_reply wb)
       \<and> Disk_create (disk m) (advance (IsDir (mountdir m)) wb) = (Inr (), dm, vm)
       \<and> device dm = Some devm \<and> rc (next_reply vm) \<noteq> 0 \<Longrightarrow>
       raises_with is_mount_error (fst (DiskMount_mount m wb))"
    using disk_mount_fails by blast
  show "fstype m = Some t \<and> device (disk m) = Some devf \<and> rc (next_reply wa) \<noteq> 0 \<Longrightarrow>
       raises_with is_mount_error (fst (format_filesystem m wa))"
    using mkfs_fails by blast
  show "\<not> created s \<and> Disk_create (imgloop s) we = (Inr (), d1, w1)
       \<and> Disk_create (cowloop s) w1 = (Inr (), d2, w2) \<and> kind d1 \<noteq> Raw
       \<and> replies w2 = p # q # st # rd # rest2 \<and> rc st = 0 \<and> rc rd \<noteq> 0 \<Longrightarrow>
       raises_with is_snapshot_error (fst (create s we))"
    using create_dmsetup_fails [of s we d1 w1 d2 w2 p q st rd rest2] by auto
  show "created s' \<and> name s' = Some nm \<and> rc (next_reply wa) \<noteq> 0 \<Longrightarrow>
       raises_with is_snapshot_error (fst (remove s' False wa))"
    using remove_raises [of s' nm False wa] by simp
  show "((minimal \<and> sz = None) \<or> (\<not> minimal \<and> sz \<noteq> None))
       \<and> replies wd = c0 # tm # im # rz # c # rest4 \<and> rc tm = 0 \<and> rc rz = 0 \<and> rc c \<noteq> 0 \<Longrightarrow>
       \<exists>msg. fst (resize2fs (Some f) sz minimal wd) = Inl (CreatorError msg)"
    using fsck_after_resize_fails [of minimal sz wd c0 tm im rz c rest4 f] by blast
  show "((minimal \<and> sz = None) \<or> (\<not> minimal \<and> sz \<noteq> None))
       \<and> replies wc = c0' # tm' # im' # rz' # rest3 \<and> rc tm' = 0 \<and> rc rz' \<noteq> 0 \<Longrightarrow>
       fst (resize2fs (Some f) sz minimal wc) = Inr (rc rz')"
    using resize_tool_status_returned [of minimal sz wc c0' tm' im' rz' rest3 f] by blast
  show "fstype m = Some t \<and> device (disk m) = Some devf \<and> rc (next_reply wt) = 0 \<Longrightarrow>
       fst (format_filesystem m wt) = Inr ()"
    using tune2fs_ignored by blast
  show "\<not> raises (fst (LoopbackDisk_cleanup d wa))"
    using losetup_detach_ignored by blast
qed

theorem fatal_exit_statuses_witness:
  "(\<exists>msg. fst (mksquashfs ''out/osmin'' ''out/osmin.img''
        (fresh_world [loop_reply, exit_status 1])) = Inl (SquashfsError msg))
   \<and> raises_with is_mount_error (fst (BindChrootMount_mount (example_bind\<lparr>b_mounted := False\<rparr>)
        (fresh_world [loop_reply, exit_status 1])))
   \<and> raises_with is_mount_error
        (fst (BindChrootMount_unmount example_bind (fresh_world [exit_status 1])))
   \<and> raises_with is_mount_error
        (fst (LoopbackDisk_create example_loop_disk (fresh_world [exit_status 1])))
   \<and> raises_with is_mount_error
        (fst (LoopbackDisk_create example_loop_disk (fresh_world [loop_reply, exit_status 1])))
   \<and> raises_with is_mount_error
        (fst (DiskMount_unmount example_mount (fresh_world [exit_status 1])))
   \<and> raises_with is_mount_error
        (fst (DiskMount_mount example_raw_mount (fresh_world [loop_reply, exit_status 1])))
   \<and> raises_with is_mount_error
        (fst (format_filesystem example_raw_mount (fresh_world [exit_status 1])))
   \<and> raises_with is_snapshot_error
        (fst (create fresh_snapshot (fresh_world (loops_ok @ [exit_status 1]))))
   \<and> raises_with is_snapshot_error
        (fst (remove example_snapshot False (fresh_world [exit_status 1])))
   \<and> (\<exists>msg. fst (resize2fs (Some ''fs.img'') (Some 1048576) False
        (fresh_world second_check_fails)) = Inl (CreatorError msg))
   \<and> fst (resize2fs (Some ''fs.img'') (Some 1048576) False (fresh_world resize_tool_fails))
        = Inr 1
   \<and> fst (format_filesystem example_raw_mount (fresh_world [])) = Inr ()
   \<and> \<not> raises (fst (LoopbackDisk_cleanup example_loop_disk (fresh_world [exit_status 1])))"
proof -
  have mk: "Disk_create (disk example_raw_mount)
              (advance (IsDir (mountdir example_raw_mount)) (fresh_world [loop_reply, exit_status 1]))
            = (Inr (), disk example_raw_mount,
               advance (IsDir (mountdir example_raw_mount))
                 (fresh_world [loop_reply, exit_status 1]))"
    by (simp add: Disk_create_def example_raw_mount_def ExtDiskMount_init_def RawDisk_init_def)
  have nc: "\<not> created fresh_snapshot"
    by (simp add: fresh_snapshot_def DeviceMapperSnapshot_init_def)
  have k: "kind ((imgloop fresh_snapshot)\<lparr>device := Some ''/dev/loop0''\<rparr>) \<noteq> Raw"
    by (simp add: fresh_snapshot_def DeviceMapperSnapshot_init_def LoopbackDisk_init_def)
  have misc:
    "replies (fresh_world [loop_reply, exit_status 1]) = loop_reply # exit_status 1 # []"
    "rc (exit_status 1) \<noteq> 0" "rc loop_reply = 0" "flag loop_reply"
    "py_split (out loop_reply) = ''/dev/loop0'' # []"
    "next_reply (fresh_world [exit_status 1]) = exit_status 1"
    "next_reply (fresh_world [loop_reply, exit_status 1]) = loop_reply"
    "next_reply (advance (IsDir (mountdir example_raw_mount))
        (fresh_world [loop_reply, exit_status 1])) = exit_status 1"
    "next_reply (fresh_world []) = ok_reply"
    "rc (number 2048) = 0"
    "rc (stdout_of ''/tmp/resize-image-a'') = 0" "rc (exit_status 0) = 0"
    "rc (exit_status 8) \<noteq> 0"
    by (simp_all add: fresh_world_def exit_status_def loop_reply_def next_reply_def advance_def
          py_split_def isspace_def number_def stdout_of_def)
  have objs:
    "\<not> b_mounted (example_bind\<lparr>b_mounted := False\<rparr>)" "b_mounted example_bind"
    "device example_loop_disk = None" "mounted example_mount"
    "\<not> mounted example_raw_mount" "fstype example_raw_mount = Some ''ext3''"
    "device (disk example_raw_mount) = Some ''/dev/sdb1''"
    "created example_snapshot" "name example_snapshot = Some ''imgcreate-7-9''"
    by (simp_all add: example_bind_def example_loop_disk_def LoopbackDisk_init_def
          example_mount_def example_raw_mount_def ExtDiskMount_init_def RawDisk_init_def
          example_snapshot_def)
  have scripts:
    "replies (fresh_world second_check_fails)
       = exit_status 0 # stdout_of ''/tmp/resize-image-a'' # exit_status 0 # exit_status 0
           # exit_status 8 # []"
    "replies (fresh_world resize_tool_fails)
       = exit_status 0 # stdout_of ''/tmp/resize-image-a'' # exit_status 0 # exit_status 1 # []"
    "replies \<lparr>replies = [number 7, number 9, number 2048, exit_status 1],
         trace = [(Exec [''/sbin/losetup'', ''-f''], stdout_of ''/dev/loop0''),
                  (Exec [''/sbin/losetup'', ''/dev/loop0'', ''fs.img''], exit_status 0),
                  (Makedirs ''out'', exit_status 0),
                  (Extend ''out/osmin'' True 67108864, exit_status 0),
                  (Exec [''/sbin/losetup'', ''-f''], stdout_of ''/dev/loop1''),
                  (Exec [''/sbin/losetup'', ''/dev/loop1'', ''out/osmin''], exit_status 0)]\<rparr>
        = number 7 # number 9 # number 2048 # exit_status 1 # []"
    by (simp_all add: fresh_world_def second_check_fails_def resize_tool_fails_def)
  have one: "rc (exit_status 1) = 1" by (simp add: exit_status_def)
  from fatal_exit_statuses
         [where wb = "fresh_world [loop_reply, exit_status 1]" and k = loop_reply
            and r = "exit_status 1" and rest = "[]"
            and inp = "''out/osmin''" and outp = "''out/osmin.img''"
            and b = "example_bind\<lparr>b_mounted := False\<rparr>" and b' = example_bind
            and wa = "fresh_world [exit_status 1]"
            and d = example_loop_disk and dev = "''/dev/loop0''" and toks = "[]"
            and m' = example_mount and m = example_raw_mount
            and dm = "disk example_raw_mount"
            and vm = "advance (IsDir (mountdir example_raw_mount))
                        (fresh_world [loop_reply, exit_status 1])"
            and devm = "''/dev/sdb1''" and t = "''ext3''" and devf = "''/dev/sdb1''"
            and s = fresh_snapshot and we = "fresh_world (loops_ok @ [exit_status 1])"
            and ?d1.0 = "(imgloop fresh_snapshot)\<lparr>device := Some ''/dev/loop0''\<rparr>"
            and ?d2.0 = "(cowloop fresh_snapshot)\<lparr>device := Some ''/dev/loop1''\<rparr>"
            and ?w1.0 = "\<lparr>replies = drop 2 loops_ok @ [exit_status 1],
                 trace = [(Exec [''/sbin/losetup'', ''-f''], stdout_of ''/dev/loop0''),
                   (Exec [''/sbin/losetup'', ''/dev/loop0'', ''fs.img''], exit_status 0)]\<rparr>"
            and ?w2.0 = "\<lparr>replies = [number 7, number 9, number 2048, exit_status 1],
                 trace = [(Exec [''/sbin/losetup'', ''-f''], stdout_of ''/dev/loop0''),
                   (Exec [''/sbin/losetup'', ''/dev/loop0'', ''fs.img''], exit_status 0),
                   (Makedirs ''out'', exit_status 0),
                   (Extend ''out/osmin'' True 67108864, exit_status 0),
                   (Exec [''/sbin/losetup'', ''-f''], stdout_of ''/dev/loop1''),
                   (Exec [''/sbin/losetup'', ''/dev/loop1'', ''out/osmin''], exit_status 0)]\<rparr>"
            and p = "number 7" and q = "number 9" and st = "number 2048"
            and rd = "exit_status 1" and ?rest2.0 = "[]"
            and s' = example_snapshot and nm = "''imgcreate-7-9''"
            and minimal = False and sz = "Some 1048576" and f = "''fs.img''"
            and wd = "fresh_world second_check_fails"
            and ?c0.0 = "exit_status 0" and tm = "stdout_of ''/tmp/resize-image-a''"
            and im = "exit_status 0" and rz = "exit_status 0" and c = "exit_status 8"
            and ?rest4.0 = "[]"
            and wc = "fresh_world resize_tool_fails"
            and c0' = "exit_status 0" and tm' = "stdout_of ''/tmp/resize-image-a''"
            and im' = "exit_status 0" and rz' = "exit_status 1" and ?rest3.0 = "[]"
            and wt = "fresh_world []"]
       mk nc k misc objs scripts fresh_img_create fresh_cow_create one
  show ?thesis
    by simp
qed

text \<open>
  Claim C9 as stated fails: when the resize tool exits with status 1, \<^verbatim>\<open>resize2fs\<close> does
  not raise; it returns the status (and none of its callers looks at it).
\<close>

theorem resize_tool_failure_counterexample:
  "fst (resize2fs (Some ''fs.img'') (Some 1048576) False (fresh_world resize_tool_fails)) = Inr 1
   \<and> execs (snd (resize2fs (Some ''fs.img'') (Some 1048576) False (fresh_world resize_tool_fails)))
       = [[''/sbin/e2fsck'', ''-f'', ''-y'', ''fs.img''],
          [''/sbin/e2image'', ''-r'', ''fs.img'', ''/tmp/resize-image-a''],
          [''/sbin/resize2fs'', ''fs.img'', ''1024K'']]"
  by (simp add: resize2fs_def e2fsck_def env_call_def next_reply_def advance_def fresh_world_def
        resize_tool_fails_def exit_status_def stdout_of_def execs_def Let_def
        str_int_def str_nat.simps)

subsection \<open>\<^verbatim>\<open>ExtDiskMount.resparse\<close>\<close>

lemma new_events_append: "trace w' = trace w @ es \<Longrightarrow> new_events w w' = es"
  by (simp add: new_events_def)

lemma cleanup_events:
  assumes "DiskMount_cleanup m w = (Inr u, m1, w1)"
  shows "\<exists>es. trace w1 = trace w @ es
           \<and> map fst (filter key_event es)
               = (if mounted m then [Exec [''/bin/umount'', mountdir m]] else [])
                 @ map Exec (detach_cmd (disk m))
           \<and> \<not> mounted m1 \<and> \<not> bound_loop (disk m1)
           \<and> kind (disk m1) = kind (disk m) \<and> lofile (disk m1) = lofile (disk m)
           \<and> disk_size (disk m1) = disk_size (disk m) \<and> blocksize m1 = blocksize m"
  using assms
  by (cases "kind (disk m)"; cases "device (disk m)")
     (auto simp: DiskMount_cleanup_def DiskMount_unmount_def Disk_cleanup_def
        LoopbackDisk_cleanup_def env_call_def Let_def trace_advance detach_cmd_def
        bound_loop_def split: if_splits)

lemma resize2fs_events:
  assumes "resize2fs (Some f) sz minimal w = (Inr ret, w1)"
  shows "\<exists>es. trace w1 = trace w @ es
           \<and> map fst (filter key_event es)
               = [Exec ([''/sbin/resize2fs'', f]
                    @ (if minimal then [''-M''] else [str_int (the sz div 1024) @ ''K'']))]
           \<and> (minimal \<or> sz \<noteq> None)"
  using assms
  by (auto simp: resize2fs_def e2fsck_def env_call_def Let_def trace_advance
        split: if_splits)

lemma get_size_events:
  assumes "get_size_from_filesystem m w = (Inr v, w1)"
  shows "\<exists>es dump. trace w1 = trace w @ es \<and> filter key_event es = []
           \<and> (Exec [''/sbin/dumpe2fs'', ''-h'', lofile (disk m)], dump) \<in> set es
           \<and> reported_size m dump = Some v"
proof -
  let ?a = "Exec [''/sbin/dumpe2fs'', ''-h'', lofile (disk m)]"
  from assms have nr: "kind (disk m) \<noteq> Raw"
    by (auto simp: get_size_from_filesystem_def get_lofile_def split: disk_kind.splits)
  then have l: "get_lofile (disk m) = Inr (lofile (disk m))"
    by (cases "kind (disk m)") (simp_all add: get_lofile_def)
  from assms l have w1: "w1 = advance ?a w" and v: "reported_size m (next_reply w) = Some v"
    by (auto simp: get_size_from_filesystem_def env_call_def Let_def reported_size_def
          split: sum.splits option.splits)
  have "trace w1 = trace w @ [(?a, next_reply w)]"
    using w1 by (simp add: trace_advance)
  moreover have "filter key_event [(?a, next_reply w)] = []" by simp
  moreover have "(?a, next_reply w) \<in> set [(?a, next_reply w)]" by simp
  ultimately show ?thesis using v by blast
qed

lemma expand_events:
  assumes "SparseLoopbackDisk_expand d c sz w = (Inr u, w1)"
  shows "\<exists>es. trace w1 = trace w @ es \<and> filter key_event es = []"
  using assms
  by (auto simp: SparseLoopbackDisk_expand_def makedirs_def env_call_def Let_def trace_advance
        split: disk_kind.splits if_splits option.splits)

lemma resize_to_minimal_events:
  assumes "resize_to_minimal m w = (Inr v, w1)"
  shows "\<exists>es dump. trace w1 = trace w @ es
           \<and> map fst (filter key_event es) = [Exec [''/sbin/resize2fs'', lofile (disk m), ''-M'']]
           \<and> (Exec [''/sbin/dumpe2fs'', ''-h'', lofile (disk m)], dump) \<in> set es
           \<and> reported_size m dump = Some v"
proof -
  from assms have nr: "kind (disk m) \<noteq> Raw"
    by (auto simp: resize_to_minimal_def get_lofile_def split: disk_kind.splits)
  then have l: "get_lofile (disk m) = Inr (lofile (disk m))"
    by (cases "kind (disk m)") (simp_all add: get_lofile_def)
  from assms l obtain ret w0 where
    r: "resize2fs (Some (lofile (disk m))) None True w = (Inr ret, w0)"
    and g: "get_size_from_filesystem m w0 = (Inr v, w1)"
    by (auto simp: resize_to_minimal_def split: prod.splits sum.splits)
  from resize2fs_events [OF r] obtain es0 where
    e0: "trace w0 = trace w @ es0"
        "map fst (filter key_event es0) = [Exec [''/sbin/resize2fs'', lofile (disk m), ''-M'']]"
    by auto
  from get_size_events [OF g] obtain es1 dump where
    e1: "trace w1 = trace w0 @ es1" "filter key_event es1 = []"
        "(Exec [''/sbin/dumpe2fs'', ''-h'', lofile (disk m)], dump) \<in> set es1"
        "reported_size m dump = Some v"
    by auto
  from e0 e1 show ?thesis by auto
qed

lemma truncate_events:
  assumes "SparseLoopbackDisk_truncate d (Some n) w = (Inr u, w1)"
  shows "\<exists>r. trace w1 = trace w @ [(Ftruncate (lofile d) n, r)]"
  using assms
  by (auto simp: SparseLoopbackDisk_truncate_def env_call_def Let_def trace_advance
        split: disk_kind.splits if_splits)

lemma resize_filesystem_events:
  assumes "resize_filesystem m sz w = (Inr x, w1)"
  shows "\<exists>st es. trace w1 = trace w @ (Stat (lofile (disk m)), st) # es
           \<and> map fst (filter key_event es)
               = (case resize_target m sz of
                    None \<Rightarrow> []
                  | Some t \<Rightarrow> if t = num st then []
                     else [Exec [''/sbin/resize2fs'', lofile (disk m), str_int (t div 1024) @ ''K'']])
           \<and> resize_target m sz \<noteq> None"
proof -
  from assms have nr: "kind (disk m) \<noteq> Raw"
    by (auto simp: resize_filesystem_def get_lofile_def split: disk_kind.splits)
  then have l: "get_lofile (disk m) = Inr (lofile (disk m))"
    by (cases "kind (disk m)") (simp_all add: get_lofile_def)
  let ?f = "lofile (disk m)"
  let ?w0 = "advance (Stat ?f) w"
  let ?st = "next_reply w"
  from assms l have ok: "rc ?st = 0"
    by (auto simp: resize_filesystem_def env_call_def Let_def split: if_splits)
  show ?thesis
  proof (cases "resize_target m sz = Some (num ?st)")
    case True
    with assms l ok have "w1 = ?w0"
      by (auto simp: resize_filesystem_def resize_target_def env_call_def Let_def)
    with True show ?thesis by (auto simp: trace_advance)
  next
    case False
    with assms l ok obtain w2 ret u where
      x: "(case resize_target m sz of
             None \<Rightarrow> (Inr (), ?w0)
           | Some n \<Rightarrow> if n > num ?st
                        then SparseLoopbackDisk_expand (disk m) (n \<noteq> 0) None ?w0
                        else (Inr (), ?w0)) = (Inr u, w2)"
      and r: "resize2fs (Some ?f) (resize_target m sz) False w2 = (Inr ret, w1)"
      by (auto simp: resize_filesystem_def resize_target_def env_call_def Let_def
            split: prod.splits sum.splits)
    from resize2fs_events [OF r] obtain es2 where
      e2: "trace w1 = trace w2 @ es2"
          "map fst (filter key_event es2)
             = [Exec [''/sbin/resize2fs'', ?f, str_int (the (resize_target m sz) div 1024) @ ''K'']]"
          "resize_target m sz \<noteq> None"
      by auto
    then obtain t where t: "resize_target m sz = Some t" by auto
    have "\<exists>es1. trace w2 = trace ?w0 @ es1 \<and> filter key_event es1 = []"
    proof (cases "t > num ?st")
      case True
      with x t have "SparseLoopbackDisk_expand (disk m) (t \<noteq> 0) None ?w0 = (Inr u, w2)"
        by simp
      from expand_events [OF this] show ?thesis .
    next
      case False
      with x t have "w2 = ?w0" by simp
      then show ?thesis by simp
    qed
    then obtain es1 where e1: "trace w2 = trace ?w0 @ es1" "filter key_event es1 = []"
      by auto
    from e1 e2 t False show ?thesis
      by (auto simp: trace_advance)
  qed
qed

lemma reported_size_cong:
  "blocksize m1 = blocksize m \<Longrightarrow> reported_size m1 r = reported_size m r"
  by (simp add: reported_size_def split: sum.splits option.splits)

lemma resparse_events:
  assumes "resparse m sz w = (Inr v, m', w')"
  shows "\<exists>st dump t. resize_target m sz = Some t
        \<and> (Exec [''/sbin/dumpe2fs'', ''-h'', lofile (disk m)], dump) \<in> set (new_events w w')
        \<and> reported_size m dump = Some v
        \<and> (Stat (lofile (disk m)), st) \<in> set (new_events w w')
        \<and> key_actions w w' =
            (if mounted m then [Exec [''/bin/umount'', mountdir m]] else [])
            @ map Exec (detach_cmd (disk m))
            @ [Exec [''/sbin/resize2fs'', lofile (disk m), ''-M''],
               Ftruncate (lofile (disk m)) v,
               Stat (lofile (disk m))]
            @ (if t = num st then []
               else [Exec [''/sbin/resize2fs'', lofile (disk m), str_int (t div 1024) @ ''K'']])
        \<and> \<not> mounted m' \<and> \<not> bound_loop (disk m')"
proof -
  from assms obtain u m1 w1 where
    c: "DiskMount_cleanup m w = (Inr u, m1, w1)"
    by (auto simp: resparse_def Mount_cleanup_def split: prod.splits sum.splits)
  from assms c obtain w2 where
    r: "resize_to_minimal m1 w1 = (Inr v, w2)"
    by (auto simp: resparse_def Mount_cleanup_def split: prod.splits sum.splits)
  from assms c r obtain u' w3 where
    t: "SparseLoopbackDisk_truncate (disk m1) (Some v) w2 = (Inr u', w3)"
    by (auto simp: resparse_def Mount_cleanup_def split: prod.splits sum.splits)
  from assms c r t obtain x where
    f: "resize_filesystem m1 sz w3 = (Inr x, w')" and m': "m' = m1"
    by (auto simp: resparse_def Mount_cleanup_def split: prod.splits sum.splits)
  from cleanup_events [OF c] obtain es1 where
    e1: "trace w1 = trace w @ es1"
        "map fst (filter key_event es1)
           = (if mounted m then [Exec [''/bin/umount'', mountdir m]] else [])
             @ map Exec (detach_cmd (disk m))"
    and k: "\<not> mounted m1" "\<not> bound_loop (disk m1)" "lofile (disk m1) = lofile (disk m)"
        "disk_size (disk m1) = disk_size (disk m)" "blocksize m1 = blocksize m"
    by auto
  have rs: "\<And>r. reported_size m1 r = reported_size m r"
    using k(5) by (rule reported_size_cong)
  from resize_to_minimal_events [OF r] k rs obtain es2 dump where
    e2: "trace w2 = trace w1 @ es2"
        "map fst (filter key_event es2) = [Exec [''/sbin/resize2fs'', lofile (disk m), ''-M'']]"
        "(Exec [''/sbin/dumpe2fs'', ''-h'', lofile (disk m)], dump) \<in> set es2"
        "reported_size m dump = Some v"
    by auto
  from truncate_events [OF t] k obtain rt where
    e3: "trace w3 = trace w2 @ [(Ftruncate (lofile (disk m)) v, rt)]"
    by auto
  have tg: "resize_target m1 sz = resize_target m sz"
    using k by (simp add: resize_target_def split: option.splits)
  from resize_filesystem_events [OF f] k tg obtain st es4 tt where
    e4: "trace w' = trace w3 @ (Stat (lofile (disk m)), st) # es4"
        "resize_target m sz = Some tt"
        "map fst (filter key_event es4)
           = (if tt = num st then []
              else [Exec [''/sbin/resize2fs'', lofile (disk m), str_int (tt div 1024) @ ''K'']])"
    by auto
  let ?es = "es1 @ es2 @ [(Ftruncate (lofile (disk m)) v, rt)] @ (Stat (lofile (disk m)), st) # es4"
  have tr: "trace w' = trace w @ ?es"
    using e1 e2 e3 e4 by simp
  then have ne: "new_events w w' = ?es" by (rule new_events_append)
  show ?thesis
    using ne e1 e2 e4 k m'
    by (auto simp: key_actions_def)
qed

text \<open>
  Claim C6, amended. A call \<^verbatim>\<open>resparse(size)\<close> that returns \<open>v\<close> has performed, in this
  order: the cleanup (\<^verbatim>\<open>umount\<close> if mounted, \<^verbatim>\<open>losetup -d\<close> if a loop device was bound),
  the minimal resize (\<^verbatim>\<open>resize2fs FILE -M\<close>), the truncation of the backing file to \<open>v\<close>
  bytes, where \<open>v\<close> is the block count reported by \<^verbatim>\<open>dumpe2fs\<close> times the block size, a
  reading of the file size, and then a resize to the target \<open>t\<close>, which is \<open>size\<close> or,
  when \<open>size\<close> is unset, the declared size of the disk; this last resize is left out
  exactly when the file size read equals \<open>t\<close>. Afterwards the mount is not mounted and
  holds no loop device.
\<close>

theorem resparse_steps:
  "resparse m sz w = (Inr v, m', w') \<longrightarrow>
     (\<exists>st dump t. resize_target m sz = Some t
        \<and> (Exec [''/sbin/dumpe2fs'', ''-h'', lofile (disk m)], dump) \<in> set (new_events w w')
        \<and> reported_size m dump = Some v
        \<and> (Stat (lofile (disk m)), st) \<in> set (new_events w w')
        \<and> key_actions w w' =
            (if mounted m then [Exec [''/bin/umount'', mountdir m]] else [])
            @ map Exec (detach_cmd (disk m))
            @ [Exec [''/sbin/resize2fs'', lofile (disk m), ''-M''],
               Ftruncate (lofile (disk m)) v,
               Stat (lofile (disk m))]
            @ (if t = num st then []
               else [Exec [''/sbin/resize2fs'', lofile (disk m), str_int (t div 1024) @ ''K'']])
        \<and> \<not> mounted m' \<and> \<not> bound_loop (disk m'))"
  using resparse_events by blast

lemma block_count_100: "reported_size example_sparse_mount
    (stdout_of ''Block count:              100'') = Some 409600"
  by (simp add: reported_size_def parse_field_def split_on_def startswith_def strip_def
        stdout_of_def isspace_def py_int_def isdigit_def digits_val_def Let_def
        example_sparse_mount_def ExtDiskMount_init_def)

lemma resparse_example:
  "resparse example_sparse_mount None (fresh_world resparse_replies)
     = (Inr 409600, example_sparse_mount,
        \<lparr>replies = [],
         trace = [(Exec [''/sbin/e2fsck'', ''-f'', ''-y'', ''fs.img''], exit_status 0),
                  (Mkstemp, stdout_of ''/tmp/resize-image-a''),
                  (Exec [''/sbin/e2image'', ''-r'', ''fs.img'', ''/tmp/resize-image-a''],
                   exit_status 0),
                  (Exec [''/sbin/resize2fs'', ''fs.img'', ''-M''], exit_status 0),
                  (Exec [''/sbin/e2fsck'', ''-f'', ''-y'', ''fs.img''], exit_status 0),
                  (Unlink ''/tmp/resize-image-a'', exit_status 0),
                  (Exec [''/sbin/dumpe2fs'', ''-h'', ''fs.img''],
                   stdout_of ''Block count:              100''),
                  (Ftruncate ''fs.img'' 409600, exit_status 0),
                  (Stat ''fs.img'', number 409600),
                  (Makedirs [], ok_reply),
                  (Extend ''fs.img'' True 67108864, ok_reply),
                  (Exec [''/sbin/e2fsck'', ''-f'', ''-y'', ''fs.img''], ok_reply),
                  (Mkstemp, ok_reply),
                  (Exec [''/sbin/e2image'', ''-r'', ''fs.img'', []], ok_reply),
                  (Exec [''/sbin/resize2fs'', ''fs.img'', ''65536K''], ok_reply),
                  (Exec [''/sbin/e2fsck'', ''-f'', ''-y'', ''fs.img''], ok_reply),
                  (Unlink [], ok_reply)]\<rparr>)"
  by (simp add: resparse_def Mount_cleanup_def DiskMount_cleanup_def DiskMount_unmount_def
        Disk_cleanup_def LoopbackDisk_cleanup_def resize_to_minimal_def
        get_size_from_filesystem_def parse_field_def split_on_def startswith_def strip_def
        isspace_def py_int_def isdigit_def digits_val_def SparseLoopbackDisk_truncate_def
        resize_filesystem_def get_lofile_def SparseLoopbackDisk_expand_def makedirs_def
        dirname_def EEXIST_def resize2fs_def e2fsck_def env_call_def next_reply_def
        advance_def Let_def exit_status_def number_def stdout_of_def str_int_def
        str_nat.simps ok_reply_def example_sparse_mount_def ExtDiskMount_init_def
        SparseLoopbackDisk_init_def fresh_world_def resparse_replies_def)

theorem resparse_steps_witness:
  "fst (resparse example_sparse_mount None (fresh_world resparse_replies)) = Inr 409600
   \<and> (\<exists>st dump t. resize_target example_sparse_mount None = Some t
        \<and> (Exec [''/sbin/dumpe2fs'', ''-h'', lofile (disk example_sparse_mount)], dump)
             \<in> set (new_events (fresh_world resparse_replies)
                  (snd (snd (resparse example_sparse_mount None (fresh_world resparse_replies)))))
        \<and> reported_size example_sparse_mount dump = Some 409600
        \<and> (Stat (lofile (disk example_sparse_mount)), st)
             \<in> set (new_events (fresh_world resparse_replies)
                  (snd (snd (resparse example_sparse_mount None (fresh_world resparse_replies)))))
        \<and> key_actions (fresh_world resparse_replies)
             (snd (snd (resparse example_sparse_mount None (fresh_world resparse_replies)))) =
            (if mounted example_sparse_mount
             then [Exec [''/bin/umount'', mountdir example_sparse_mount]] else [])
            @ map Exec (detach_cmd (disk example_sparse_mount))
            @ [Exec [''/sbin/resize2fs'', lofile (disk example_sparse_mount), ''-M''],
               Ftruncate (lofile (disk example_sparse_mount)) 409600,
               Stat (lofile (disk example_sparse_mount))]
            @ (if t = num st then []
               else [Exec [''/sbin/resize2fs'', lofile (disk example_sparse_mount),
                           str_int (t div 1024) @ ''K'']])
        \<and> \<not> mounted (fst (snd (resparse example_sparse_mount None
                (fresh_world resparse_replies))))
        \<and> \<not> bound_loop (disk (fst (snd (resparse example_sparse_mount None
                (fresh_world resparse_replies))))))"
  using resparse_steps [of example_sparse_mount None "fresh_world resparse_replies" 409600
          "fst (snd (resparse example_sparse_mount None (fresh_world resparse_replies)))"
          "snd (snd (resparse example_sparse_mount None (fresh_world resparse_replies)))"]
        resparse_example
  by simp

text \<open>
  Claim C6 as stated fails: with \<open>size\<close> unset the filesystem is not left at its minimal
  size. On a sparse disk of declared size 64 MiB whose minimal size is 409600 bytes,
  \<^verbatim>\<open>resparse()\<close> truncates the file to 409600 bytes and then runs the resize tool again
  with the declared size, 65536K.
\<close>

theorem resparse_unset_size_counterexample:
  "fst (resparse example_sparse_mount None (fresh_world resparse_replies)) = Inr 409600
   \<and> key_actions (fresh_world resparse_replies)
        (snd (snd (resparse example_sparse_mount None (fresh_world resparse_replies))))
      = [Exec [''/sbin/resize2fs'', ''fs.img'', ''-M''],
         Ftruncate ''fs.img'' 409600,
         Stat ''fs.img'',
         Exec [''/sbin/resize2fs'', ''fs.img'', ''65536K'']]"
  by (simp add: resparse_example) (simp add: key_actions_def new_events_def fresh_world_def)

end
